theory Spec2Isabelle
  imports Main "HOL-Library.Word"
begin

section \<open>The metadata interception proxy (pkg/aws/metadata/server.go)\<close>

text \<open>
  A shallow embedding of \<^verbatim>\<open>server.go\<close>. Go strings are byte strings (\<open>string\<close>), Go's
  \<open>int\<close> and \<open>time.Duration\<close> values are integers (no arithmetic of the file can overflow:
  the only products are the constants \<open>time.Second * 10\<close> and \<open>time.Second * 5\<close>), a Go
  \<open>error\<close> is the text its \<open>Error()\<close> method returns, and a possibly-nil error is an
  \<open>error option\<close>.
\<close>

type_synonym error = string

subsection \<open>Configuration\<close>

text \<open>\<open>time.Duration\<close> counts nanoseconds; \<open>time.Second\<close> is \<open>10^9\<close> of them.\<close>

type_synonym Duration = int

definition Second :: Duration where
  "Second = 1000000000"

record ServerConfig =
  ListenPort :: int
  MetadataEndpoint :: string
  AllowIPQuery :: bool
  MaxElapsedTime :: Duration

definition NewConfig :: "int \<Rightarrow> ServerConfig" where
  "NewConfig port =
     \<lparr> ListenPort = port,
       MetadataEndpoint = ''http://169.254.169.254'',
       AllowIPQuery = False,
       MaxElapsedTime = Second * 10 \<rparr>"

subsection \<open>Client address parsing\<close>

text \<open>
  \<open>strings.Split(s, sep)\<close> for a one-byte separator, as the library's loop runs: cut at the
  first index of the separator, continue with what follows it, and end with the remainder
  once no separator is left. The result is never empty.
\<close>

function Split :: "string \<Rightarrow> char \<Rightarrow> string list" where
  "Split s sep =
     (if sep \<in> set s
      then takeWhile (\<lambda>c. c \<noteq> sep) s # Split (tl (dropWhile (\<lambda>c. c \<noteq> sep) s)) sep
      else [s])"
  by pat_completeness auto
termination
proof (relation "measure (\<lambda>(s, sep). length s)")
  show "wf (measure (\<lambda>(s, sep). length s))" by simp
next
  fix s :: string and sep :: char
  assume "sep \<in> set s"
  then have "dropWhile (\<lambda>c. c \<noteq> sep) s \<noteq> []" by simp
  then have "length (tl (dropWhile (\<lambda>c. c \<noteq> sep) s)) < length (dropWhile (\<lambda>c. c \<noteq> sep) s)"
    by (cases "dropWhile (\<lambda>c. c \<noteq> sep) s") simp_all
  also have "\<dots> \<le> length s" by (rule length_dropWhile_le)
  finally show "((tl (dropWhile (\<lambda>c. c \<noteq> sep) s), sep), (s, sep)) \<in> measure (\<lambda>(s, sep). length s)"
    by simp
qed

declare Split.simps [simp del]

text \<open>\<open>strings.Join(elems, sep)\<close>: the elements with \<open>sep\<close> between neighbours.\<close>

fun Join :: "string list \<Rightarrow> string \<Rightarrow> string" where
  "Join [] sep = []"
| "Join [x] sep = x"
| "Join (x # y # ys) sep = x @ sep @ Join (y # ys) sep"

text \<open>
  \<open>ParseClientIP\<close> returns \<open>("", err)\<close> or \<open>(ip, nil)\<close>; the sum carries the error on the
  left and the address on the right. \<open>parts[0:len(parts)-1]\<close> is \<open>butlast parts\<close>.
\<close>

definition ParseClientIP :: "string \<Rightarrow> error + string" where
  "ParseClientIP addr =
     (let parts = Split addr (CHR '':'')
      in if length parts < 2
         then Inl (''incorrect format, expected ip:port, was: '' @ addr)
         else Inr (Join (take (length parts - 1) parts) '':''))"

subsection \<open>Requests and identity resolution\<close>

text \<open>
  \<open>url.Values\<close> is a map from a key to its list of values; \<open>Get\<close> returns the first
  value of the key, or the empty string when the key is absent (or the map is nil) or has
  no values.
\<close>

type_synonym Values = "string \<rightharpoonup> string list"

definition Get :: "Values \<Rightarrow> string \<Rightarrow> string" where
  "Get v key = (case v key of None \<Rightarrow> [] | Some vs \<Rightarrow> (case vs of [] \<Rightarrow> [] | x # _ \<Rightarrow> x))"

text \<open>
  \<open>go_context\<close> is a \<open>context.Context\<close>, as far as deadlines go. Instants are nanoseconds on the clock that
  \<open>time.Now()\<close> reads. \<open>WithDeadline\<close> keeps the parent's deadline when that one is
  earlier (it then only wraps the parent in a cancellable context) and installs a timer
  for the new deadline otherwise; \<open>WithTimeout(parent, d)\<close> is
  \<open>WithDeadline(parent, time.Now().Add(d))\<close>, with the clock reading \<open>now\<close> made explicit.
  The deferred \<open>cancel()\<close> only releases the timer and is not modelled.
\<close>

datatype go_context = Background | cancelCtx go_context | timerCtx go_context int

fun Deadline :: "go_context \<Rightarrow> int option" where
  "Deadline Background = None"
| "Deadline (cancelCtx parent) = Deadline parent"
| "Deadline (timerCtx parent d) = Some d"

fun Parent :: "go_context \<Rightarrow> go_context option" where
  "Parent Background = None"
| "Parent (cancelCtx parent) = Some parent"
| "Parent (timerCtx parent d) = Some parent"

definition WithDeadline :: "go_context \<Rightarrow> int \<Rightarrow> go_context" where
  "WithDeadline parent d =
     (case Deadline parent of
        Some cur \<Rightarrow> if cur < d then cancelCtx parent else timerCtx parent d
      | None \<Rightarrow> timerCtx parent d)"

definition WithTimeout :: "go_context \<Rightarrow> Duration \<Rightarrow> int \<Rightarrow> go_context" where
  "WithTimeout parent timeout now = WithDeadline parent (now + timeout)"

text \<open>The fields of \<open>http.Request\<close> that the file reads.\<close>

record Request =
  Form :: Values
  RemoteAddr :: string
  Context :: go_context

subsection \<open>The server\<close>

text \<open>
  \<open>http.Server\<close> with the two fields \<open>Serve\<close> sets. The \<open>Server\<close> struct keeps the
  collaborators (\<open>k8s.RoleFinder\<close>, \<open>sts.CredentialsProvider\<close>) as values of types that are
  left open; its \<open>server\<close> pointer is an option (\<open>nil\<close> is \<open>None\<close>). The mutex has no
  counterpart: calls are modelled one at a time.
\<close>

record 'h http_Server =
  Addr :: string
  Handler :: 'h

record ('f, 'c, 'h) Server =
  cfg :: ServerConfig
  finder :: 'f
  credentials :: 'c
  server :: "'h http_Server option"

definition NewWebServer :: "ServerConfig \<Rightarrow> 'f \<Rightarrow> 'c \<Rightarrow> ('f, 'c, 'h) Server" where
  "NewWebServer config finder' credentials' =
     \<lparr> cfg = config, finder = finder', credentials = credentials', server = None \<rparr>"

text \<open>\<open>fmt.Sprintf("%d", n)\<close>: decimal digits, with a minus sign for a negative number.\<close>

definition digit :: "nat \<Rightarrow> char" where
  "digit n = ''0123456789'' ! n"

function dec_nat :: "nat \<Rightarrow> string" where
  "dec_nat n = (if n < 10 then [digit n] else dec_nat (n div 10) @ [digit (n mod 10)])"
  by pat_completeness auto
termination
  by (relation "measure id") auto

declare dec_nat.simps [simp del]

definition dec_int :: "int \<Rightarrow> string" where
  "dec_int i = (if i < 0 then CHR ''-'' # dec_nat (nat (- i)) else dec_nat (nat i))"

definition listenAddress :: "('f, 'c, 'h) Server \<Rightarrow> string" where
  "listenAddress s = '':'' @ dec_int (ListenPort (cfg s))"

definition clientIP :: "('f, 'c, 'h) Server \<Rightarrow> Request \<Rightarrow> error + string" where
  "clientIP s req =
     (if AllowIPQuery (cfg s) \<and> Get (Form req) ''ip'' \<noteq> []
      then Inr (Get (Form req) ''ip'')
      else ParseClientIP (RemoteAddr req))"

subsection \<open>Effects\<close>

text \<open>
  What the file does to the outside is recorded: the log lines written through logrus and
  the calls on the \<open>http.Server\<close>, in order, and the meters of
  \<open>metrics.DefaultRegistry\<close> by name with their \<open>int64\<close> counts. A log entry's fields are
  a map from field name to value.
\<close>

datatype field_value = StringField string | IntField int

type_synonym Fields = "string \<rightharpoonup> field_value"

datatype event =
    Infof string
  | Infoln string
  | Errorf Fields string
  | ListenAndServe_call string
  | Shutdown_call string go_context

record world =
  meters :: "string \<rightharpoonup> 64 word"
  events :: "event list"

text \<open>
  An \<open>http.ResponseWriter\<close> is the list of operations performed on it, oldest first;
  \<open>http.Error(w, msg, code)\<close> is one of them.
\<close>

datatype response_op =
    Header_Set string string
  | WriteHeader int
  | Write string
  | http_Error string int

type_synonym ResponseWriter = "response_op list"

subsection \<open>The request lifecycle guard\<close>

definition getStatusBucket :: "int \<Rightarrow> string" where
  "getStatusBucket status =
     (if status \<ge> 200 \<and> status < 300 then ''2xx''
      else if status \<ge> 300 \<and> status < 400 then ''3xx''
      else if status \<ge> 400 \<and> status < 500 then ''4xx''
      else if status \<ge> 500 \<and> status < 600 then ''5xx''
      else ''unknown'')"

text \<open>
  \<open>metrics.GetOrRegisterMeter(name, registry)\<close> returns the meter registered under the
  name, registering a fresh one (count 0) first when there is none; the meter is known by
  its name. \<open>Mark(n)\<close> adds \<open>n\<close> to the meter's count, in \<open>int64\<close> arithmetic.
\<close>

definition GetOrRegisterMeter :: "string \<Rightarrow> world \<Rightarrow> string \<times> world" where
  "GetOrRegisterMeter name \<sigma> =
     (case meters \<sigma> name of
        Some c \<Rightarrow> (name, \<sigma>)
      | None \<Rightarrow> (name, \<sigma>\<lparr>meters := (meters \<sigma>)(name \<mapsto> 0)\<rparr>))"

definition Mark :: "string \<Rightarrow> 64 word \<Rightarrow> world \<Rightarrow> world" where
  "Mark meter n \<sigma> =
     (case meters \<sigma> meter of
        Some c \<Rightarrow> \<sigma>\<lparr>meters := (meters \<sigma>)(meter \<mapsto> c + n)\<rparr>
      | None \<Rightarrow> \<sigma>)"

definition getResponseMeter :: "string \<Rightarrow> int \<Rightarrow> world \<Rightarrow> string \<times> world" where
  "getResponseMeter name result \<sigma> =
     (let bucket = getStatusBucket result
      in GetOrRegisterMeter (''handlerResponse-'' @ name @ ''.'' @ bucket) \<sigma>)"

definition handlerMaxDuration :: Duration where
  "handlerMaxDuration = Second * 5"

text \<open>
  The \<open>handler\<close> interface: \<open>Handle(ctx, w, req)\<close> returns a status and an error (or nil)
  and may write to \<open>w\<close> and act on the outside. \<open>khttp.RequestFields\<close> lives in another
  package of the repository and is the parameter \<open>RequestFields\<close>; \<open>now\<close> is what the clock
  reads when \<open>errorHandler\<close>'s closure starts.
\<close>

type_synonym handler =
  "go_context \<Rightarrow> ResponseWriter \<Rightarrow> Request \<Rightarrow> world \<Rightarrow> (int \<times> error option) \<times> ResponseWriter \<times> world"

definition errorHandler ::
  "(Request \<Rightarrow> Fields) \<Rightarrow> string \<Rightarrow> handler \<Rightarrow> int \<Rightarrow> ResponseWriter \<Rightarrow> Request \<Rightarrow> world
     \<Rightarrow> ResponseWriter \<times> world" where
  "errorHandler RequestFields name handle now w req \<sigma> =
     (let ctx = WithTimeout (Context req) handlerMaxDuration now;
          ((status, err), w, \<sigma>) = handle ctx w req \<sigma>;
          (meter, \<sigma>) = getResponseMeter name status \<sigma>;
          \<sigma> = Mark meter 1 \<sigma>
      in case err of
           None \<Rightarrow> (w, \<sigma>)
         | Some e \<Rightarrow>
             (w @ [http_Error e status],
              \<sigma>\<lparr>events := events \<sigma> @
                 [Errorf ((RequestFields req)(''status'' \<mapsto> IntField status))
                    (''error processing request: '' @ e)]\<rparr>))"

subsection \<open>Routing\<close>

text \<open>
  A gorilla/mux path template is a sequence of literal pieces and variables. The template
  is compiled to one anchored regular expression in which a variable \<open>{name}\<close> stands for
  \<open>[^/]+\<close> and a variable \<open>{name:re}\<close> for \<open>re\<close>; the file uses \<open>.*\<close> only, and in Go's
  regular expressions the dot matches every character but the newline. A path matches
  when it can be cut into pieces that match the template's pieces in order.
\<close>

datatype var_re = defaultPattern | dot_star

datatype tpl_piece = Lit string | Var string var_re

fun matches_re :: "var_re \<Rightarrow> string \<Rightarrow> bool" where
  "matches_re defaultPattern v = (v \<noteq> [] \<and> list_all (\<lambda>c. c \<noteq> CHR ''/'') v)"
| "matches_re dot_star v = list_all (\<lambda>c. c \<noteq> CHR 0x0A) v"

fun tpl_match :: "tpl_piece list \<Rightarrow> string \<Rightarrow> bool" where
  "tpl_match [] path = (path = [])"
| "tpl_match (Lit l # ps) path =
     (take (length l) path = l \<and> tpl_match ps (drop (length l) path))"
| "tpl_match (Var name re # ps) path =
     list_ex (\<lambda>n. matches_re re (take n path) \<and> tpl_match ps (drop n path)) [0..<Suc (length path)]"

text \<open>
  The handlers that \<open>Serve\<close> binds, by construction: the metrics exposition, the \<open>pong\<close>
  closure, \<open>errorHandler(name, h)\<close> around one of the three handler structs, and the reverse
  proxy to the parsed metadata URL. \<open>Guarded name h\<close> is
  \<open>http.HandlerFunc(errorHandler(name, h))\<close>.
\<close>

datatype ('f, 'c) handle_struct =
    healthHandler string
  | roleHandler 'f
  | credentialsHandler 'f 'c

datatype ('f, 'c, 'u) http_Handler =
    ExpHandler
  | pong
  | Guarded string "('f, 'c) handle_struct"
  | ReverseProxy 'u

text \<open>
  The router is the list of its routes in the order of their registration. Route matching
  tests them in that order against the request's (decoded) path and the first route that
  matches wins. \<open>Match\<close> is \<open>Router.Match\<close>, route matching alone; what the router
  does with a request is \<open>ServeHTTP\<close> below.
\<close>

type_synonym ('f, 'c, 'u) Router = "(tpl_piece list \<times> ('f, 'c, 'u) http_Handler) list"

definition NewRouter :: "('f, 'c, 'u) Router" where
  "NewRouter = []"

definition Handle :: "('f, 'c, 'u) Router \<Rightarrow> tpl_piece list \<Rightarrow> ('f, 'c, 'u) http_Handler \<Rightarrow> ('f, 'c, 'u) Router" where
  "Handle router tpl h = router @ [(tpl, h)]"

fun Match :: "('f, 'c, 'u) Router \<Rightarrow> string \<Rightarrow> ('f, 'c, 'u) http_Handler option" where
  "Match [] path = None"
| "Match ((tpl, h) # routes) path = (if tpl_match tpl path then Some h else Match routes path)"

text \<open>
  \<open>path.Clean\<close> of the Go library, element by element: the path is cut at its slashes;
  an empty element and a \<open>.\<close> element are dropped; a \<open>..\<close> element removes the element
  written last (unless that is itself a kept \<open>..\<close>), is dropped at the start of a rooted
  path, and is kept at the start of a path that is not rooted; every other element is
  written. The result is the written elements joined with slashes, after the leading
  slash when the path is rooted; \<open>.\<close> stands for an empty result.
\<close>

definition Clean_step :: "bool \<Rightarrow> string list \<Rightarrow> string \<Rightarrow> string list" where
  "Clean_step rooted out e =
     (if e = [] \<or> e = ''.'' then out
      else if e = ''..'' then
        (if out \<noteq> [] \<and> last out \<noteq> ''..'' then butlast out
         else if rooted then out
         else out @ [''..''])
      else out @ [e])"

definition Clean :: "string \<Rightarrow> string" where
  "Clean path =
     (if path = [] then ''.''
      else
        (let rooted = (hd path = CHR ''/'');
             out = foldl (Clean_step rooted) [] (Split path (CHR ''/''))
         in if rooted then CHR ''/'' # Join out ''/''
            else if out = [] then ''.''
            else Join out ''/''))"

text \<open>
  mux's \<open>cleanPath\<close>: the canonical form of a request path. The path is made rooted,
  cleaned, and given back the trailing slash that \<open>path.Clean\<close> removes.
\<close>

definition cleanPath :: "string \<Rightarrow> string" where
  "cleanPath p =
     (if p = [] then ''/''
      else
        (let p = (if hd p \<noteq> CHR ''/'' then CHR ''/'' # p else p);
             np = Clean p
         in if last p = CHR ''/'' \<and> np \<noteq> ''/'' then np @ ''/'' else np))"

text \<open>
  \<open>Router.ServeHTTP\<close>, which is what the server runs for a request, by outcome. A router
  made by \<open>NewRouter\<close> cleans paths (\<open>Serve\<close> does not call \<open>SkipClean\<close>): a path that is
  not its own canonical form is answered with a 301 redirect to the canonical form, and no
  route is tried. Otherwise the handler of the matching route serves the request, and
  the not-found handler does when no route matches.
\<close>

datatype ('f, 'c, 'u) served =
    MovedPermanently string
  | Serves "('f, 'c, 'u) http_Handler"
  | NotFound

definition ServeHTTP :: "('f, 'c, 'u) Router \<Rightarrow> string \<Rightarrow> ('f, 'c, 'u) served" where
  "ServeHTTP router path =
     (let p = cleanPath path
      in if p \<noteq> path then MovedPermanently p
         else (case Match router path of
                 Some h \<Rightarrow> Serves h
               | None \<Rightarrow> NotFound))"

datatype 'r logging = LoggingHandler 'r

subsection \<open>Serve and Stop\<close>

text \<open>
  \<open>url.Parse\<close> and the blocking \<open>ListenAndServe\<close> of \<open>net/http\<close> are the parameters
  \<open>Parse\<close> and \<open>ListenAndServe\<close>; \<open>Serve\<close> returns the error of either.
\<close>

definition Serve ::
  "(string \<Rightarrow> error + 'u) \<Rightarrow> (('f, 'c, 'u) Router logging http_Server \<Rightarrow> error option)
     \<Rightarrow> ('f, 'c, ('f, 'c, 'u) Router logging) Server \<Rightarrow> world
     \<Rightarrow> error option \<times> ('f, 'c, ('f, 'c, 'u) Router logging) Server \<times> world" where
  "Serve Parse ListenAndServe s \<sigma> =
     (let router = NewRouter;
          router = Handle router [Lit ''/metrics''] ExpHandler;
          router = Handle router [Lit ''/ping''] pong;
          h = healthHandler (MetadataEndpoint (cfg s));
          router = Handle router [Lit ''/health''] (Guarded ''health'' h);
          r = roleHandler (finder s);
          router = Handle router
            [Lit ''/'', Var ''version'' defaultPattern, Lit ''/meta-data/iam/security-credentials/'']
            (Guarded ''roleName'' r);
          c = credentialsHandler (finder s) (credentials s);
          router = Handle router
            [Lit ''/'', Var ''version'' defaultPattern, Lit ''/meta-data/iam/security-credentials/'',
             Var ''role'' dot_star]
            (Guarded ''credentials'' c)
      in case Parse (MetadataEndpoint (cfg s)) of
           Inl err \<Rightarrow> (Some err, s, \<sigma>)
         | Inr metadataURL \<Rightarrow>
             (let router = Handle router [Lit ''/'', Var ''path'' dot_star] (ReverseProxy metadataURL);
                  srv = \<lparr> Addr = listenAddress s, Handler = LoggingHandler router \<rparr>;
                  s = s\<lparr>server := Some srv\<rparr>;
                  \<sigma> = \<sigma>\<lparr>events := events \<sigma> @ [Infof (''listening '' @ listenAddress s)]\<rparr>;
                  \<sigma> = \<sigma>\<lparr>events := events \<sigma> @ [ListenAndServe_call (Addr srv)]\<rparr>
              in (ListenAndServe srv, s, \<sigma>)))"

text \<open>
  \<open>Stop\<close> has no result; the error that \<open>Shutdown\<close> returns is dropped by the source.
\<close>

definition Stop ::
  "int \<Rightarrow> go_context \<Rightarrow> ('f, 'c, 'h) Server \<Rightarrow> world \<Rightarrow> ('f, 'c, 'h) Server \<times> world" where
  "Stop now ctx s \<sigma> =
     (case server s of
        None \<Rightarrow> (s, \<sigma>)
      | Some srv \<Rightarrow>
          (let \<sigma> = \<sigma>\<lparr>events := events \<sigma> @ [Infoln ''starting server shutdown'']\<rparr>;
               c = WithTimeout ctx (5 * Second) now;
               \<sigma> = \<sigma>\<lparr>events := events \<sigma> @ [Shutdown_call (Addr srv) c]\<rparr>;
               \<sigma> = \<sigma>\<lparr>events := events \<sigma> @ [Infoln ''gracefully shutdown server'']\<rparr>
           in (s, \<sigma>)))"

section \<open>Properties\<close>

subsection \<open>Splitting and joining\<close>

lemma Split_no_sep: "sep \<notin> set s \<Longrightarrow> Split s sep = [s]"
  by (simp add: Split.simps)

lemma Split_sep: "sep \<in> set s \<Longrightarrow>
  Split s sep = takeWhile (\<lambda>c. c \<noteq> sep) s # Split (tl (dropWhile (\<lambda>c. c \<noteq> sep) s)) sep"
  by (subst Split.simps) simp

lemma Split_not_Nil: "Split s sep \<noteq> []"
  by (subst Split.simps) simp

lemma length_Split: "length (Split s sep) = Suc (count_list s sep)"
proof (induction s sep rule: Split.induct)
  case (1 s sep)
  show ?case
  proof (cases "sep \<in> set s")
    case False
    then show ?thesis by (simp add: Split_no_sep)
  next
    case True
    have s: "s = takeWhile (\<lambda>c. c \<noteq> sep) s @ dropWhile (\<lambda>c. c \<noteq> sep) s" by simp
    from True have ne: "dropWhile (\<lambda>c. c \<noteq> sep) s \<noteq> []" by simp
    then have hd: "hd (dropWhile (\<lambda>c. c \<noteq> sep) s) = sep"
      using hd_dropWhile[of "\<lambda>c. c \<noteq> sep" s] by simp
    obtain r where r: "dropWhile (\<lambda>c. c \<noteq> sep) s = sep # r"
      using ne hd by (cases "dropWhile (\<lambda>c. c \<noteq> sep) s") auto
    have "count_list (takeWhile (\<lambda>c. c \<noteq> sep) s) sep = 0"
      by (metis (mono_tags, lifting) count_list_0_iff set_takeWhileD)
    then have "count_list s sep = Suc (count_list r sep)"
      by (subst s) (simp add: r)
    with 1[OF True] True r show ?thesis by (simp add: Split_sep)
  qed
qed

lemma Join_Split: "Join (Split s sep) [sep] = s"
proof (induction s sep rule: Split.induct)
  case (1 s sep)
  show ?case
  proof (cases "sep \<in> set s")
    case False
    then show ?thesis by (simp add: Split_no_sep)
  next
    case True
    from True have ne: "dropWhile (\<lambda>c. c \<noteq> sep) s \<noteq> []" by simp
    then have hd: "hd (dropWhile (\<lambda>c. c \<noteq> sep) s) = sep"
      using hd_dropWhile[of "\<lambda>c. c \<noteq> sep" s] by simp
    obtain r where r: "dropWhile (\<lambda>c. c \<noteq> sep) s = sep # r"
      using ne hd by (cases "dropWhile (\<lambda>c. c \<noteq> sep) s") auto
    obtain y ys where y: "Split r sep = y # ys"
      using Split_not_Nil[of r sep] by (cases "Split r sep") auto
    have "Join (Split s sep) [sep] = takeWhile (\<lambda>c. c \<noteq> sep) s @ [sep] @ Join (Split r sep) [sep]"
      using True r y by (simp add: Split_sep)
    also have "\<dots> = takeWhile (\<lambda>c. c \<noteq> sep) s @ [sep] @ r"
      using 1[OF True] r by simp
    also have "\<dots> = takeWhile (\<lambda>c. c \<noteq> sep) s @ dropWhile (\<lambda>c. c \<noteq> sep) s"
      by (simp add: r)
    finally show ?thesis by simp
  qed
qed

lemma last_Split_no_sep: "sep \<notin> set (last (Split s sep))"
proof (induction s sep rule: Split.induct)
  case (1 s sep)
  show ?case
  proof (cases "sep \<in> set s")
    case False
    then show ?thesis by (simp add: Split_no_sep)
  next
    case True
    with 1[OF True] show ?thesis by (simp add: Split_sep Split_not_Nil)
  qed
qed

lemma Join_butlast: "2 \<le> length xs \<Longrightarrow> Join xs sep = Join (butlast xs) sep @ sep @ last xs"
proof (induction xs sep rule: Join.induct)
  case (3 x y ys sep)
  show ?case
  proof (cases ys)
    case Nil
    then show ?thesis by simp
  next
    case (Cons z zs)
    with 3 show ?thesis by simp
  qed
qed simp_all

subsection \<open>Client address parsing\<close>

text \<open>
  C2. An address with at least one colon parses, without error, to everything before its
  last colon: the address is the result, a colon, and a final segment that has no colon
  (the result being the earlier segments joined with colons); an address with no colon
  is an error.
\<close>

theorem ParseClientIP_spec:
  "(CHR '':'' \<in> set addr \<longrightarrow>
      (\<exists>ip port. ParseClientIP addr = Inr ip \<and> addr = ip @ '':'' @ port
         \<and> CHR '':'' \<notin> set port
         \<and> ip = Join (butlast (Split addr (CHR '':''))) '':''))
   \<and> (CHR '':'' \<notin> set addr \<longrightarrow>
      ParseClientIP addr = Inl (''incorrect format, expected ip:port, was: '' @ addr))"
proof (intro conjI impI)
  assume colon: "CHR '':'' \<in> set addr"
  let ?parts = "Split addr (CHR '':'')"
  from colon have "count_list addr (CHR '':'') \<noteq> 0"
    by (simp add: count_list_0_iff)
  then have len: "2 \<le> length ?parts"
    by (simp add: length_Split)
  then have res: "ParseClientIP addr = Inr (Join (butlast ?parts) '':'')"
    by (simp add: ParseClientIP_def Let_def butlast_conv_take)
  have "addr = Join ?parts '':''"
    by (simp add: Join_Split)
  also have "\<dots> = Join (butlast ?parts) '':'' @ '':'' @ last ?parts"
    using len by (rule Join_butlast)
  finally have "addr = Join (butlast ?parts) '':'' @ '':'' @ last ?parts" .
  with res last_Split_no_sep [of "CHR '':''" addr]
  show "\<exists>ip port. ParseClientIP addr = Inr ip \<and> addr = ip @ '':'' @ port
         \<and> CHR '':'' \<notin> set port
         \<and> ip = Join (butlast (Split addr (CHR '':''))) '':''"
    by blast
next
  assume "CHR '':'' \<notin> set addr"
  then show "ParseClientIP addr = Inl (''incorrect format, expected ip:port, was: '' @ addr)"
    by (simp add: ParseClientIP_def Split_no_sep)
qed

theorem ParseClientIP_spec_witness:
  "CHR '':'' \<in> set ''10.0.0.5:51820''
   \<and> ParseClientIP ''10.0.0.5:51820'' = Inr ''10.0.0.5''
   \<and> CHR '':'' \<in> set ''::1:8080''
   \<and> ParseClientIP ''::1:8080'' = Inr ''::1''
   \<and> CHR '':'' \<notin> set ''localhost''
   \<and> ParseClientIP ''localhost'' = Inl ''incorrect format, expected ip:port, was: localhost''"
proof -
  have a: "CHR '':'' \<in> set ''10.0.0.5:51820''" by simp
  have b: "CHR '':'' \<in> set ''::1:8080''" by simp
  have c: "CHR '':'' \<notin> set ''localhost''" by simp
  have ja: "Join (butlast (Split ''10.0.0.5:51820'' (CHR '':''))) '':'' = ''10.0.0.5''"
    by code_simp
  have jb: "Join (butlast (Split ''::1:8080'' (CHR '':''))) '':'' = ''::1''"
    by code_simp
  from ParseClientIP_spec [of "''10.0.0.5:51820''"] a ja
  have ra: "ParseClientIP ''10.0.0.5:51820'' = Inr ''10.0.0.5''" by auto
  from ParseClientIP_spec [of "''::1:8080''"] b jb
  have rb: "ParseClientIP ''::1:8080'' = Inr ''::1''" by auto
  from ParseClientIP_spec [of "''localhost''"] c
  have rc: "ParseClientIP ''localhost'' = Inl ''incorrect format, expected ip:port, was: localhost''"
    by simp
  from a b c ra rb rc show ?thesis by blast
qed

subsection \<open>Identity resolution\<close>

text \<open>
  C3. With \<open>AllowIPQuery\<close> false, \<open>clientIP\<close> is \<open>ParseClientIP\<close> of the remote address
  alone: two requests with the same remote address resolve to the same identity or the
  same error, whatever their \<open>ip\<close> form parameters are.
\<close>

theorem clientIP_override_disabled:
  "\<not> AllowIPQuery (cfg s) \<Longrightarrow>
     clientIP s r1 = ParseClientIP (RemoteAddr r1)
     \<and> (RemoteAddr r1 = RemoteAddr r2 \<longrightarrow> clientIP s r1 = clientIP s r2)"
  by (simp add: clientIP_def)

theorem clientIP_override_disabled_witness:
  "\<not> AllowIPQuery (cfg (NewWebServer (NewConfig 8181) () () :: (unit, unit, unit) Server))
   \<and> RemoteAddr \<lparr>Form = [''ip'' \<mapsto> [''203.0.113.7'']], RemoteAddr = ''10.0.0.5:51820'', Context = Background\<rparr>
       = RemoteAddr \<lparr>Form = [''ip'' \<mapsto> [''198.51.100.9'']], RemoteAddr = ''10.0.0.5:51820'', Context = Background\<rparr>
   \<and> Get (Form \<lparr>Form = [''ip'' \<mapsto> [''203.0.113.7'']], RemoteAddr = ''10.0.0.5:51820'', Context = Background\<rparr>) ''ip''
       = ''203.0.113.7''
   \<and> Get (Form \<lparr>Form = [''ip'' \<mapsto> [''198.51.100.9'']], RemoteAddr = ''10.0.0.5:51820'', Context = Background\<rparr>) ''ip''
       = ''198.51.100.9''
   \<and> clientIP (NewWebServer (NewConfig 8181) () () :: (unit, unit, unit) Server)
        \<lparr>Form = [''ip'' \<mapsto> [''203.0.113.7'']], RemoteAddr = ''10.0.0.5:51820'', Context = Background\<rparr>
       = clientIP (NewWebServer (NewConfig 8181) () () :: (unit, unit, unit) Server)
        \<lparr>Form = [''ip'' \<mapsto> [''198.51.100.9'']], RemoteAddr = ''10.0.0.5:51820'', Context = Background\<rparr>
   \<and> clientIP (NewWebServer (NewConfig 8181) () () :: (unit, unit, unit) Server)
        \<lparr>Form = [''ip'' \<mapsto> [''203.0.113.7'']], RemoteAddr = ''10.0.0.5:51820'', Context = Background\<rparr>
       = ParseClientIP ''10.0.0.5:51820''"
proof -
  let ?s = "NewWebServer (NewConfig 8181) () () :: (unit, unit, unit) Server"
  have off: "\<not> AllowIPQuery (cfg ?s)"
    by (simp add: NewWebServer_def NewConfig_def)
  let ?r1 = "\<lparr>Form = [''ip'' \<mapsto> [''203.0.113.7'']], RemoteAddr = ''10.0.0.5:51820'', Context = Background\<rparr>"
  let ?r2 = "\<lparr>Form = [''ip'' \<mapsto> [''198.51.100.9'']], RemoteAddr = ''10.0.0.5:51820'', Context = Background\<rparr>"
  have same: "RemoteAddr ?r1 = RemoteAddr ?r2" by simp
  have g1: "Get (Form ?r1) ''ip'' = ''203.0.113.7''" by (simp add: Get_def)
  have g2: "Get (Form ?r2) ''ip'' = ''198.51.100.9''" by (simp add: Get_def)
  from clientIP_override_disabled [OF off, of ?r1 ?r2] same
  have eq: "clientIP ?s ?r1 = clientIP ?s ?r2" by blast
  from clientIP_override_disabled [OF off, of ?r1 ?r2]
  have p: "clientIP ?s ?r1 = ParseClientIP ''10.0.0.5:51820''" by simp
  from off same g1 g2 eq p show ?thesis by blast
qed

text \<open>
  C4. With \<open>AllowIPQuery\<close> true, a non-empty \<open>ip\<close> form value (the first value of the
  key) is returned as it is, without error and without looking at the remote address;
  when the key is absent or its first value is empty, the result is that of parsing the
  remote address.
\<close>

theorem clientIP_override_enabled:
  "AllowIPQuery (cfg s) \<Longrightarrow>
     (Get (Form req) ''ip'' \<noteq> [] \<longrightarrow> clientIP s req = Inr (Get (Form req) ''ip''))
     \<and> (\<forall>v vs. Form req ''ip'' = Some (v # vs) \<and> v \<noteq> [] \<longrightarrow> clientIP s req = Inr v)
     \<and> (Get (Form req) ''ip'' = [] \<longrightarrow> clientIP s req = ParseClientIP (RemoteAddr req))
     \<and> (Form req ''ip'' = None \<or> Form req ''ip'' = Some [] \<or> (\<exists>vs. Form req ''ip'' = Some ([] # vs))
          \<longrightarrow> clientIP s req = ParseClientIP (RemoteAddr req))"
  by (auto simp add: clientIP_def Get_def)

theorem clientIP_override_enabled_witness:
  "AllowIPQuery (cfg (NewWebServer ((NewConfig 8181)\<lparr>AllowIPQuery := True\<rparr>) () () :: (unit, unit, unit) Server))
   \<and> clientIP (NewWebServer ((NewConfig 8181)\<lparr>AllowIPQuery := True\<rparr>) () () :: (unit, unit, unit) Server)
        \<lparr>Form = [''ip'' \<mapsto> [''203.0.113.7'']], RemoteAddr = ''10.0.0.5:51820'', Context = Background\<rparr>
       = Inr ''203.0.113.7''
   \<and> clientIP (NewWebServer ((NewConfig 8181)\<lparr>AllowIPQuery := True\<rparr>) () () :: (unit, unit, unit) Server)
        \<lparr>Form = [''ip'' \<mapsto> [''203.0.113.7'']], RemoteAddr = ''no port'', Context = Background\<rparr>
       = Inr ''203.0.113.7''
   \<and> clientIP (NewWebServer ((NewConfig 8181)\<lparr>AllowIPQuery := True\<rparr>) () () :: (unit, unit, unit) Server)
        \<lparr>Form = Map.empty, RemoteAddr = ''10.0.0.5:51820'', Context = Background\<rparr>
       = ParseClientIP ''10.0.0.5:51820''
   \<and> clientIP (NewWebServer ((NewConfig 8181)\<lparr>AllowIPQuery := True\<rparr>) () () :: (unit, unit, unit) Server)
        \<lparr>Form = [''ip'' \<mapsto> ['''']], RemoteAddr = ''10.0.0.5:51820'', Context = Background\<rparr>
       = ParseClientIP ''10.0.0.5:51820''"
proof -
  let ?s = "NewWebServer ((NewConfig 8181)\<lparr>AllowIPQuery := True\<rparr>) () () :: (unit, unit, unit) Server"
  have on: "AllowIPQuery (cfg ?s)"
    by (simp add: NewWebServer_def NewConfig_def)
  note t = clientIP_override_enabled [OF on]
  from t [of "\<lparr>Form = [''ip'' \<mapsto> [''203.0.113.7'']], RemoteAddr = ''10.0.0.5:51820'', Context = Background\<rparr>"]
  have a: "clientIP ?s \<lparr>Form = [''ip'' \<mapsto> [''203.0.113.7'']], RemoteAddr = ''10.0.0.5:51820'', Context = Background\<rparr>
       = Inr ''203.0.113.7''" by (simp add: Get_def)
  from t [of "\<lparr>Form = [''ip'' \<mapsto> [''203.0.113.7'']], RemoteAddr = ''no port'', Context = Background\<rparr>"]
  have b: "clientIP ?s \<lparr>Form = [''ip'' \<mapsto> [''203.0.113.7'']], RemoteAddr = ''no port'', Context = Background\<rparr>
       = Inr ''203.0.113.7''" by (simp add: Get_def)
  from t [of "\<lparr>Form = Map.empty, RemoteAddr = ''10.0.0.5:51820'', Context = Background\<rparr>"]
  have c: "clientIP ?s \<lparr>Form = Map.empty, RemoteAddr = ''10.0.0.5:51820'', Context = Background\<rparr>
       = ParseClientIP ''10.0.0.5:51820''" by (simp add: Get_def)
  from t [of "\<lparr>Form = [''ip'' \<mapsto> ['''']], RemoteAddr = ''10.0.0.5:51820'', Context = Background\<rparr>"]
  have d: "clientIP ?s \<lparr>Form = [''ip'' \<mapsto> ['''']], RemoteAddr = ''10.0.0.5:51820'', Context = Background\<rparr>
       = ParseClientIP ''10.0.0.5:51820''" by (simp add: Get_def)
  from on a b c d show ?thesis by blast
qed

subsection \<open>Deadlines\<close>

lemma Deadline_WithTimeout:
  "Deadline (WithTimeout parent t now) =
     Some (case Deadline parent of None \<Rightarrow> now + t | Some cur \<Rightarrow> min cur (now + t))"
  by (cases "Deadline parent") (simp_all add: WithTimeout_def WithDeadline_def min_def)

lemma Parent_WithTimeout: "Parent (WithTimeout parent t now) = Some parent"
  by (cases "Deadline parent") (simp_all add: WithTimeout_def WithDeadline_def)

lemma Deadline_WithTimeout_le:
  "\<exists>d. Deadline (WithTimeout parent t now) = Some d \<and> d \<le> now + t"
  by (cases "Deadline parent") (simp_all add: Deadline_WithTimeout)

lemma Serve_MaxElapsedTime:
  "Serve Parse las (s\<lparr>cfg := (cfg s)\<lparr>MaxElapsedTime := t\<rparr>\<rparr>) \<sigma> =
     (case Serve Parse las s \<sigma> of
        (e, s', \<sigma>') \<Rightarrow> (e, s'\<lparr>cfg := (cfg s')\<lparr>MaxElapsedTime := t\<rparr>\<rparr>, \<sigma>'))"
  by (cases "Parse (MetadataEndpoint (cfg s))")
     (simp_all add: Serve_def Let_def listenAddress_def)

text \<open>
  C5. The guard runs the handler under the context that \<open>context.WithTimeout\<close> derives
  from the request's context with \<open>handlerMaxDuration\<close>, five seconds: whatever the
  handler returns and does when called with that context (and the guard's writer, request
  and outside) is what the guard's result is built from (the handler's writes, then the
  error response if any; the handler's registry with the one meter raised; the handler's
  log with the error entry if any), so swapping the handler for one that agrees with it on
  that context changes nothing. The derived context is a child of the request's, and its
  deadline is at most five seconds after the clock reading, whatever deadline the
  request's context carries (it is the earlier of the two). \<open>errorHandler\<close> receives no
  configuration; changing \<open>MaxElapsedTime\<close> changes nothing in what \<open>Serve\<close> builds and
  returns but the stored field, and the guard's five seconds are not the ten seconds that
  \<open>NewConfig\<close> stores.
\<close>

theorem errorHandler_deadline:
  "handlerMaxDuration = 5 * Second \<and> handlerMaxDuration = 5000000000
   \<and> (\<forall>status err w1 \<sigma>1.
         handle (WithTimeout (Context req) handlerMaxDuration now) w req \<sigma> = ((status, err), w1, \<sigma>1)
         \<longrightarrow> errorHandler rf name handle now w req \<sigma> =
               (w1 @ (case err of None \<Rightarrow> [] | Some e \<Rightarrow> [http_Error e status]),
                \<sigma>1\<lparr>meters := (meters \<sigma>1)
                      (''handlerResponse-'' @ name @ ''.'' @ getStatusBucket status \<mapsto>
                         (case meters \<sigma>1 (''handlerResponse-'' @ name @ ''.'' @ getStatusBucket status) of
                            None \<Rightarrow> 0 | Some c \<Rightarrow> c) + 1),
                    events := events \<sigma>1 @
                      (case err of
                         None \<Rightarrow> []
                       | Some e \<Rightarrow> [Errorf ((rf req)(''status'' \<mapsto> IntField status))
                                      (''error processing request: '' @ e)])\<rparr>))
   \<and> (handle' (WithTimeout (Context req) handlerMaxDuration now) w req \<sigma>
         = handle (WithTimeout (Context req) handlerMaxDuration now) w req \<sigma>
       \<longrightarrow> errorHandler rf name handle' now w req \<sigma> = errorHandler rf name handle now w req \<sigma>)
   \<and> Parent (WithTimeout (Context req) handlerMaxDuration now) = Some (Context req)
   \<and> (\<exists>d. Deadline (WithTimeout (Context req) handlerMaxDuration now) = Some d
         \<and> d \<le> now + 5000000000
         \<and> (case Deadline (Context req) of
               None \<Rightarrow> d = now + 5000000000
             | Some cur \<Rightarrow> d = min cur (now + 5000000000)))
   \<and> Serve Parse las (s\<lparr>cfg := (cfg s)\<lparr>MaxElapsedTime := t\<rparr>\<rparr>) \<sigma>' =
       (case Serve Parse las s \<sigma>' of
          (e, s', \<sigma>'') \<Rightarrow> (e, s'\<lparr>cfg := (cfg s')\<lparr>MaxElapsedTime := t\<rparr>\<rparr>, \<sigma>''))
   \<and> handlerMaxDuration \<noteq> MaxElapsedTime (NewConfig port)"
proof (intro conjI)
  show "handlerMaxDuration = 5 * Second" "handlerMaxDuration = 5000000000"
    by (simp_all add: handlerMaxDuration_def Second_def)
  show "\<forall>status err w1 \<sigma>1.
         handle (WithTimeout (Context req) handlerMaxDuration now) w req \<sigma> = ((status, err), w1, \<sigma>1)
         \<longrightarrow> errorHandler rf name handle now w req \<sigma> =
               (w1 @ (case err of None \<Rightarrow> [] | Some e \<Rightarrow> [http_Error e status]),
                \<sigma>1\<lparr>meters := (meters \<sigma>1)
                      (''handlerResponse-'' @ name @ ''.'' @ getStatusBucket status \<mapsto>
                         (case meters \<sigma>1 (''handlerResponse-'' @ name @ ''.'' @ getStatusBucket status) of
                            None \<Rightarrow> 0 | Some c \<Rightarrow> c) + 1),
                    events := events \<sigma>1 @
                      (case err of
                         None \<Rightarrow> []
                       | Some e \<Rightarrow> [Errorf ((rf req)(''status'' \<mapsto> IntField status))
                                      (''error processing request: '' @ e)])\<rparr>)"
  proof (intro allI impI)
    fix status err w1 \<sigma>1
    assume r: "handle (WithTimeout (Context req) handlerMaxDuration now) w req \<sigma> = ((status, err), w1, \<sigma>1)"
    let ?key = "''handlerResponse-'' @ name @ ''.'' @ getStatusBucket status"
    show "errorHandler rf name handle now w req \<sigma> =
               (w1 @ (case err of None \<Rightarrow> [] | Some e \<Rightarrow> [http_Error e status]),
                \<sigma>1\<lparr>meters := (meters \<sigma>1)
                      (?key \<mapsto> (case meters \<sigma>1 ?key of None \<Rightarrow> 0 | Some c \<Rightarrow> c) + 1),
                    events := events \<sigma>1 @
                      (case err of
                         None \<Rightarrow> []
                       | Some e \<Rightarrow> [Errorf ((rf req)(''status'' \<mapsto> IntField status))
                                      (''error processing request: '' @ e)])\<rparr>)"
      using r
      by (cases err; cases "meters \<sigma>1 ?key")
         (simp_all add: errorHandler_def Let_def getResponseMeter_def GetOrRegisterMeter_def Mark_def)
  qed
  show "handle' (WithTimeout (Context req) handlerMaxDuration now) w req \<sigma>
         = handle (WithTimeout (Context req) handlerMaxDuration now) w req \<sigma>
       \<longrightarrow> errorHandler rf name handle' now w req \<sigma> = errorHandler rf name handle now w req \<sigma>"
    by (simp add: errorHandler_def)
  show "Parent (WithTimeout (Context req) handlerMaxDuration now) = Some (Context req)"
    by (rule Parent_WithTimeout)
  show "\<exists>d. Deadline (WithTimeout (Context req) handlerMaxDuration now) = Some d
         \<and> d \<le> now + 5000000000
         \<and> (case Deadline (Context req) of
               None \<Rightarrow> d = now + 5000000000
             | Some cur \<Rightarrow> d = min cur (now + 5000000000))"
    by (cases "Deadline (Context req)")
       (simp_all add: Deadline_WithTimeout handlerMaxDuration_def Second_def)
  show "Serve Parse las (s\<lparr>cfg := (cfg s)\<lparr>MaxElapsedTime := t\<rparr>\<rparr>) \<sigma>' =
       (case Serve Parse las s \<sigma>' of
          (e, s', \<sigma>'') \<Rightarrow> (e, s'\<lparr>cfg := (cfg s')\<lparr>MaxElapsedTime := t\<rparr>\<rparr>, \<sigma>''))"
    by (rule Serve_MaxElapsedTime)
  show "handlerMaxDuration \<noteq> MaxElapsedTime (NewConfig port)"
    by (simp add: handlerMaxDuration_def NewConfig_def Second_def)
qed

theorem errorHandler_deadline_witness:
  "errorHandler (\<lambda>req. Map.empty) ''health''
        (\<lambda>ctx w req \<sigma>.
           ((if Deadline ctx = Some 5000000100 \<and> Parent ctx = Some Background then 200 else 500, None),
            w @ [Write ''pong''], \<sigma>))
        100 [] \<lparr>Form = Map.empty, RemoteAddr = ''10.0.0.5:51820'', Context = Background\<rparr>
        \<lparr>meters = Map.empty, events = []\<rparr>
     = ([Write ''pong''], \<lparr>meters = [''handlerResponse-health.2xx'' \<mapsto> 1], events = []\<rparr>)
   \<and> errorHandler (\<lambda>req. Map.empty) ''health''
        (\<lambda>ctx w req \<sigma>.
           ((if Deadline ctx = Some 5000000100 \<and> Parent ctx = Some Background then 200 else 500, None),
            w @ [Write ''pong''], \<sigma>))
        100 [] \<lparr>Form = Map.empty, RemoteAddr = ''10.0.0.5:51820'', Context = Background\<rparr>
        \<lparr>meters = Map.empty, events = []\<rparr>
     = errorHandler (\<lambda>req. Map.empty) ''health''
        (\<lambda>ctx w req \<sigma>. ((200, None), w @ [Write ''pong''], \<sigma>))
        100 [] \<lparr>Form = Map.empty, RemoteAddr = ''10.0.0.5:51820'', Context = Background\<rparr>
        \<lparr>meters = Map.empty, events = []\<rparr>
   \<and> Deadline (WithTimeout Background handlerMaxDuration 100) = Some 5000000100
   \<and> Deadline (WithTimeout (timerCtx Background 7) handlerMaxDuration 100) = Some 7"
proof -
  let ?req = "\<lparr>Form = Map.empty, RemoteAddr = ''10.0.0.5:51820'', Context = Background\<rparr>"
  let ?w0 = "\<lparr>meters = Map.empty, events = []\<rparr>"
  let ?h' = "(\<lambda>ctx w req \<sigma>.
           ((if Deadline ctx = Some 5000000100 \<and> Parent ctx = Some Background then 200 else 500, None),
            w @ [Write ''pong''], \<sigma>)) :: handler"
  let ?h = "(\<lambda>ctx w req \<sigma>. ((200, None), w @ [Write ''pong''], \<sigma>)) :: handler"
  have d1: "Deadline (WithTimeout Background handlerMaxDuration 100) = Some 5000000100"
    by (simp add: Deadline_WithTimeout handlerMaxDuration_def Second_def)
  have d2: "Deadline (WithTimeout (timerCtx Background 7) handlerMaxDuration 100) = Some 7"
    by (simp add: Deadline_WithTimeout handlerMaxDuration_def Second_def)
  have ran: "?h' (WithTimeout (Context ?req) handlerMaxDuration 100) [] ?req ?w0
               = ((200, None), [Write ''pong''], ?w0)"
    using d1 by (simp add: Parent_WithTimeout)
  have agree: "?h' (WithTimeout (Context ?req) handlerMaxDuration 100) [] ?req ?w0
                 = ?h (WithTimeout (Context ?req) handlerMaxDuration 100) [] ?req ?w0"
    using ran by simp
  note t = errorHandler_deadline [where handle' = ?h' and handle = ?h' and req = ?req and now = 100
      and w = "[]" and \<sigma> = ?w0 and rf = "\<lambda>req. Map.empty" and name = "''health''"]
  note run = t [THEN conjunct2, THEN conjunct2, THEN conjunct1, rule_format,
      of 200 None "[Write ''pong'']" ?w0]
  from run ran
  have a: "errorHandler (\<lambda>req. Map.empty) ''health'' ?h' 100 [] ?req ?w0
     = ([Write ''pong''], \<lparr>meters = [''handlerResponse-health.2xx'' \<mapsto> 1], events = []\<rparr>)"
    by (simp add: getStatusBucket_def)
  note cong = errorHandler_deadline [where handle' = ?h' and handle = ?h and req = ?req and now = 100
      and w = "[]" and \<sigma> = ?w0 and rf = "\<lambda>req. Map.empty" and name = "''health''",
      THEN conjunct2, THEN conjunct2, THEN conjunct2, THEN conjunct1]
  from cong agree
  have b: "errorHandler (\<lambda>req. Map.empty) ''health'' ?h' 100 [] ?req ?w0
          = errorHandler (\<lambda>req. Map.empty) ''health'' ?h 100 [] ?req ?w0"
    by blast
  from a b d1 d2 show ?thesis by (intro conjI)
qed

subsection \<open>Response meters\<close>

lemma append_sep_unique:
  assumes "c \<notin> set b1" "c \<notin> set b2" "n1 @ c # b1 = n2 @ c # b2"
  shows "n1 = n2 \<and> b1 = b2"
  using assms
proof (induction n1 arbitrary: n2)
  case Nil
  then show ?case by (cases n2) auto
next
  case (Cons x xs)
  show ?case
  proof (cases n2)
    case Nil
    with Cons.prems show ?thesis by auto
  next
    case (Cons y ys)
    with Cons.prems Cons.IH [of ys] show ?thesis by simp
  qed
qed

lemma getStatusBucket_no_dot: "CHR ''.'' \<notin> set (getStatusBucket status)"
  by (simp add: getStatusBucket_def)

lemma getStatusBucket_cases:
  "(200 \<le> status \<and> status < 300 \<longrightarrow> getStatusBucket status = ''2xx'')
   \<and> (300 \<le> status \<and> status < 400 \<longrightarrow> getStatusBucket status = ''3xx'')
   \<and> (400 \<le> status \<and> status < 500 \<longrightarrow> getStatusBucket status = ''4xx'')
   \<and> (500 \<le> status \<and> status < 600 \<longrightarrow> getStatusBucket status = ''5xx'')
   \<and> (status < 200 \<or> 600 \<le> status \<longrightarrow> getStatusBucket status = ''unknown'')"
  by (simp add: getStatusBucket_def)

lemma getResponseMeter_Mark:
  assumes "getResponseMeter name status \<sigma> = (m, \<sigma>')"
  shows "m = ''handlerResponse-'' @ name @ ''.'' @ getStatusBucket status"
    and "events (Mark m 1 \<sigma>') = events \<sigma>"
    and "meters (Mark m 1 \<sigma>') = (meters \<sigma>)(m \<mapsto> (case meters \<sigma> m of None \<Rightarrow> 0 | Some c \<Rightarrow> c) + 1)"
  using assms
  by (auto simp add: getResponseMeter_def GetOrRegisterMeter_def Mark_def Let_def split: option.splits)

text \<open>
  C6. Whatever the handler returns (error or not), the guard leaves the registry as the
  handler left it but for one meter, named after the handler's label and the bucket of the
  returned status, whose count is one more than before (a meter not yet registered counts
  from zero). No other label and bucket share that meter's name. The bucket depends on
  the status alone: \<open>2xx\<close> for 200 to 299, \<open>3xx\<close> for 300 to 399, \<open>4xx\<close> for 400 to
  499, \<open>5xx\<close> for 500 to 599, and \<open>unknown\<close> below 200 or from 600 on.
\<close>

theorem errorHandler_marks_meter:
  assumes "handle (WithTimeout (Context req) handlerMaxDuration now) w req \<sigma> = ((status, err), w1, \<sigma>1)"
  shows "meters (snd (errorHandler rf name handle now w req \<sigma>))
           (''handlerResponse-'' @ name @ ''.'' @ getStatusBucket status)
         = Some ((case meters \<sigma>1 (''handlerResponse-'' @ name @ ''.'' @ getStatusBucket status) of
                    None \<Rightarrow> 0 | Some c \<Rightarrow> c) + 1)
     \<and> (\<forall>k. k \<noteq> ''handlerResponse-'' @ name @ ''.'' @ getStatusBucket status \<longrightarrow>
            meters (snd (errorHandler rf name handle now w req \<sigma>)) k = meters \<sigma>1 k)
     \<and> (\<forall>name' status'.
            ''handlerResponse-'' @ name' @ ''.'' @ getStatusBucket status'
              = ''handlerResponse-'' @ name @ ''.'' @ getStatusBucket status
            \<longrightarrow> name' = name \<and> getStatusBucket status' = getStatusBucket status)
     \<and> (200 \<le> status \<and> status < 300 \<longrightarrow> getStatusBucket status = ''2xx'')
     \<and> (300 \<le> status \<and> status < 400 \<longrightarrow> getStatusBucket status = ''3xx'')
     \<and> (400 \<le> status \<and> status < 500 \<longrightarrow> getStatusBucket status = ''4xx'')
     \<and> (500 \<le> status \<and> status < 600 \<longrightarrow> getStatusBucket status = ''5xx'')
     \<and> (status < 200 \<or> 600 \<le> status \<longrightarrow> getStatusBucket status = ''unknown'')"
proof -
  let ?key = "''handlerResponse-'' @ name @ ''.'' @ getStatusBucket status"
  obtain m \<sigma>2 where g: "getResponseMeter name status \<sigma>1 = (m, \<sigma>2)"
    by (cases "getResponseMeter name status \<sigma>1")
  have m: "meters (snd (errorHandler rf name handle now w req \<sigma>)) = meters (Mark m 1 \<sigma>2)"
    using assms g by (cases err) (simp_all add: errorHandler_def Let_def)
  have upd: "meters (snd (errorHandler rf name handle now w req \<sigma>))
      = (meters \<sigma>1)(?key \<mapsto> (case meters \<sigma>1 ?key of None \<Rightarrow> 0 | Some c \<Rightarrow> c) + 1)"
    using m getResponseMeter_Mark(3) [OF g] getResponseMeter_Mark(1) [OF g] by simp
  have inj: "\<forall>name' status'.
            ''handlerResponse-'' @ name' @ ''.'' @ getStatusBucket status' = ?key
            \<longrightarrow> name' = name \<and> getStatusBucket status' = getStatusBucket status"
  proof (intro allI impI)
    fix name' status'
    assume "''handlerResponse-'' @ name' @ ''.'' @ getStatusBucket status' = ?key"
    then have "name' @ CHR ''.'' # getStatusBucket status' = name @ CHR ''.'' # getStatusBucket status"
      by simp
    with getStatusBucket_no_dot [of status'] getStatusBucket_no_dot [of status]
    show "name' = name \<and> getStatusBucket status' = getStatusBucket status"
      by (rule append_sep_unique)
  qed
  from upd have a: "meters (snd (errorHandler rf name handle now w req \<sigma>)) ?key
         = Some ((case meters \<sigma>1 ?key of None \<Rightarrow> 0 | Some c \<Rightarrow> c) + 1)"
    by simp
  from upd have b: "\<forall>k. k \<noteq> ?key \<longrightarrow>
            meters (snd (errorHandler rf name handle now w req \<sigma>)) k = meters \<sigma>1 k"
    by simp
  from a b inj getStatusBucket_cases [of status] show ?thesis by blast
qed

theorem errorHandler_marks_meter_witness:
  "((\<lambda>ctx w req \<sigma>. ((404, Some ''no role''), w, \<sigma>)) :: handler)
      (WithTimeout (Context \<lparr>Form = Map.empty, RemoteAddr = ''10.0.0.5:51820'', Context = Background\<rparr>)
         handlerMaxDuration 100)
      [] \<lparr>Form = Map.empty, RemoteAddr = ''10.0.0.5:51820'', Context = Background\<rparr>
      \<lparr>meters = [''handlerResponse-roleName.4xx'' \<mapsto> 41], events = []\<rparr>
    = ((404, Some ''no role''), [], \<lparr>meters = [''handlerResponse-roleName.4xx'' \<mapsto> 41], events = []\<rparr>)
   \<and> meters (snd (errorHandler (\<lambda>req. Map.empty) ''roleName''
          (\<lambda>ctx w req \<sigma>. ((404, Some ''no role''), w, \<sigma>))
          100 [] \<lparr>Form = Map.empty, RemoteAddr = ''10.0.0.5:51820'', Context = Background\<rparr>
          \<lparr>meters = [''handlerResponse-roleName.4xx'' \<mapsto> 41], events = []\<rparr>))
        ''handlerResponse-roleName.4xx'' = Some 42
   \<and> meters (snd (errorHandler (\<lambda>req. Map.empty) ''roleName''
          (\<lambda>ctx w req \<sigma>. ((404, Some ''no role''), w, \<sigma>))
          100 [] \<lparr>Form = Map.empty, RemoteAddr = ''10.0.0.5:51820'', Context = Background\<rparr>
          \<lparr>meters = [''handlerResponse-roleName.4xx'' \<mapsto> 41], events = []\<rparr>))
        ''handlerResponse-roleName.2xx'' = None
   \<and> ((\<lambda>ctx w req \<sigma>. ((200, None), w @ [Write ''my-role''], \<sigma>)) :: handler)
      (WithTimeout (Context \<lparr>Form = Map.empty, RemoteAddr = ''10.0.0.5:51820'', Context = Background\<rparr>)
         handlerMaxDuration 100)
      [] \<lparr>Form = Map.empty, RemoteAddr = ''10.0.0.5:51820'', Context = Background\<rparr>
      \<lparr>meters = Map.empty, events = []\<rparr>
    = ((200, None), [Write ''my-role''], \<lparr>meters = Map.empty, events = []\<rparr>)
   \<and> meters (snd (errorHandler (\<lambda>req. Map.empty) ''roleName''
          (\<lambda>ctx w req \<sigma>. ((200, None), w @ [Write ''my-role''], \<sigma>))
          100 [] \<lparr>Form = Map.empty, RemoteAddr = ''10.0.0.5:51820'', Context = Background\<rparr>
          \<lparr>meters = Map.empty, events = []\<rparr>))
        ''handlerResponse-roleName.2xx'' = Some 1"
proof -
  let ?req = "\<lparr>Form = Map.empty, RemoteAddr = ''10.0.0.5:51820'', Context = Background\<rparr>"
  let ?w1 = "\<lparr>meters = [''handlerResponse-roleName.4xx'' \<mapsto> 41 :: 64 word], events = []\<rparr>"
  let ?w0 = "\<lparr>meters = Map.empty, events = []\<rparr>"
  let ?h1 = "(\<lambda>ctx w req \<sigma>. ((404, Some ''no role''), w, \<sigma>)) :: handler"
  let ?h2 = "(\<lambda>ctx w req \<sigma>. ((200, None), w @ [Write ''my-role''], \<sigma>)) :: handler"
  have r1: "?h1 (WithTimeout (Context ?req) handlerMaxDuration 100) [] ?req ?w1
              = ((404, Some ''no role''), [], ?w1)" by simp
  have r2: "?h2 (WithTimeout (Context ?req) handlerMaxDuration 100) [] ?req ?w0
              = ((200, None), [Write ''my-role''], ?w0)" by simp
  have b1: "getStatusBucket 404 = ''4xx''" and b2: "getStatusBucket 200 = ''2xx''"
    by (simp_all add: getStatusBucket_def)
  note t1 = errorHandler_marks_meter [where handle = ?h1 and req = ?req and now = 100 and w = "[]"
      and \<sigma> = ?w1 and status = 404 and err = "Some ''no role''" and ?w1.0 = "[]" and ?\<sigma>1.0 = ?w1
      and rf = "\<lambda>req. Map.empty" and name = "''roleName''"]
  note t2 = errorHandler_marks_meter [where handle = ?h2 and req = ?req and now = 100 and w = "[]"
      and \<sigma> = ?w0 and status = 200 and err = None and ?w1.0 = "[Write ''my-role'']" and ?\<sigma>1.0 = ?w0
      and rf = "\<lambda>req. Map.empty" and name = "''roleName''"]
  from t1 have a: "meters (snd (errorHandler (\<lambda>req. Map.empty) ''roleName'' ?h1 100 [] ?req ?w1))
        ''handlerResponse-roleName.4xx'' = Some 42"
    by (simp add: b1)
  from t1 have "meters (snd (errorHandler (\<lambda>req. Map.empty) ''roleName'' ?h1 100 [] ?req ?w1))
        ''handlerResponse-roleName.2xx'' = meters ?w1 ''handlerResponse-roleName.2xx''"
    by (simp add: b1)
  then have b: "meters (snd (errorHandler (\<lambda>req. Map.empty) ''roleName'' ?h1 100 [] ?req ?w1))
        ''handlerResponse-roleName.2xx'' = None"
    by simp
  from t2 have c: "meters (snd (errorHandler (\<lambda>req. Map.empty) ''roleName'' ?h2 100 [] ?req ?w0))
        ''handlerResponse-roleName.2xx'' = Some 1"
    by (simp add: b2)
  from r1 r2 a b c show ?thesis by blast
qed

subsection \<open>Error responses\<close>

text \<open>
  C7. When the handler returns an error, the guard calls \<open>http.Error\<close> on the writer with
  the error's text and the returned status, after whatever the handler wrote, and logs one
  error entry whose fields are the request's fields plus the status and whose message
  carries the error's text. When the handler returns no error, the guard adds nothing to
  the writer and logs nothing.
\<close>

theorem errorHandler_error_response:
  assumes "handle (WithTimeout (Context req) handlerMaxDuration now) w req \<sigma> = ((status, err), w1, \<sigma>1)"
  shows "(\<forall>e. err = Some e \<longrightarrow>
            fst (errorHandler rf name handle now w req \<sigma>) = w1 @ [http_Error e status]
            \<and> events (snd (errorHandler rf name handle now w req \<sigma>))
                = events \<sigma>1 @ [Errorf ((rf req)(''status'' \<mapsto> IntField status))
                                  (''error processing request: '' @ e)])
     \<and> (err = None \<longrightarrow>
            fst (errorHandler rf name handle now w req \<sigma>) = w1
            \<and> events (snd (errorHandler rf name handle now w req \<sigma>)) = events \<sigma>1)"
proof -
  obtain m \<sigma>2 where g: "getResponseMeter name status \<sigma>1 = (m, \<sigma>2)"
    by (cases "getResponseMeter name status \<sigma>1")
  have ev: "events (Mark m 1 \<sigma>2) = events \<sigma>1"
    using g by (rule getResponseMeter_Mark(2))
  show ?thesis
    using assms g ev by (cases err) (simp_all add: errorHandler_def Let_def)
qed

theorem errorHandler_error_response_witness:
  "errorHandler (\<lambda>req. [''path'' \<mapsto> StringField ''/latest/meta-data/iam/security-credentials/'']) ''roleName''
      (\<lambda>ctx w req \<sigma>. ((404, Some ''no role''), w, \<sigma>))
      100 [] \<lparr>Form = Map.empty, RemoteAddr = ''10.0.0.5:51820'', Context = Background\<rparr>
      \<lparr>meters = Map.empty, events = []\<rparr>
    = ([http_Error ''no role'' 404],
       \<lparr>meters = [''handlerResponse-roleName.4xx'' \<mapsto> 1],
        events = [Errorf [''path'' \<mapsto> StringField ''/latest/meta-data/iam/security-credentials/'',
                          ''status'' \<mapsto> IntField 404]
                    ''error processing request: no role'']\<rparr>)
   \<and> errorHandler (\<lambda>req. [''path'' \<mapsto> StringField ''/latest/meta-data/iam/security-credentials/'']) ''roleName''
      (\<lambda>ctx w req \<sigma>. ((200, None), w @ [Write ''my-role''], \<sigma>))
      100 [] \<lparr>Form = Map.empty, RemoteAddr = ''10.0.0.5:51820'', Context = Background\<rparr>
      \<lparr>meters = Map.empty, events = []\<rparr>
    = ([Write ''my-role''], \<lparr>meters = [''handlerResponse-roleName.2xx'' \<mapsto> 1], events = []\<rparr>)"
proof -
  let ?rf = "\<lambda>req :: Request. [''path'' \<mapsto> StringField ''/latest/meta-data/iam/security-credentials/'']"
  let ?req = "\<lparr>Form = Map.empty, RemoteAddr = ''10.0.0.5:51820'', Context = Background\<rparr>"
  let ?w0 = "\<lparr>meters = Map.empty, events = []\<rparr>"
  let ?h1 = "(\<lambda>ctx w req \<sigma>. ((404, Some ''no role''), w, \<sigma>)) :: handler"
  let ?h2 = "(\<lambda>ctx w req \<sigma>. ((200, None), w @ [Write ''my-role''], \<sigma>)) :: handler"
  note t1 = errorHandler_error_response [where handle = ?h1 and req = ?req and now = 100 and w = "[]"
      and \<sigma> = ?w0 and status = 404 and err = "Some ''no role''" and ?w1.0 = "[]" and ?\<sigma>1.0 = ?w0
      and rf = ?rf and name = "''roleName''"]
  note t2 = errorHandler_error_response [where handle = ?h2 and req = ?req and now = 100 and w = "[]"
      and \<sigma> = ?w0 and status = 200 and err = None and ?w1.0 = "[Write ''my-role'']" and ?\<sigma>1.0 = ?w0
      and rf = ?rf and name = "''roleName''"]
  have m1: "meters (snd (errorHandler ?rf ''roleName'' ?h1 100 [] ?req ?w0))
              = [''handlerResponse-roleName.4xx'' \<mapsto> 1]"
    by (simp add: errorHandler_def Let_def getResponseMeter_def GetOrRegisterMeter_def Mark_def
          getStatusBucket_def)
  have m2: "meters (snd (errorHandler ?rf ''roleName'' ?h2 100 [] ?req ?w0))
              = [''handlerResponse-roleName.2xx'' \<mapsto> 1]"
    by (simp add: errorHandler_def Let_def getResponseMeter_def GetOrRegisterMeter_def Mark_def
          getStatusBucket_def)
  from t1 have f1: "fst (errorHandler ?rf ''roleName'' ?h1 100 [] ?req ?w0) = [http_Error ''no role'' 404]"
    and e1: "events (snd (errorHandler ?rf ''roleName'' ?h1 100 [] ?req ?w0))
              = [Errorf [''path'' \<mapsto> StringField ''/latest/meta-data/iam/security-credentials/'',
                          ''status'' \<mapsto> IntField 404]
                    ''error processing request: no role'']"
    by simp_all
  from t2 have f2: "fst (errorHandler ?rf ''roleName'' ?h2 100 [] ?req ?w0) = [Write ''my-role'']"
    and e2: "events (snd (errorHandler ?rf ''roleName'' ?h2 100 [] ?req ?w0)) = []"
    by simp_all
  have a: "errorHandler ?rf ''roleName'' ?h1 100 [] ?req ?w0
    = ([http_Error ''no role'' 404],
       \<lparr>meters = [''handlerResponse-roleName.4xx'' \<mapsto> 1],
        events = [Errorf [''path'' \<mapsto> StringField ''/latest/meta-data/iam/security-credentials/'',
                          ''status'' \<mapsto> IntField 404]
                    ''error processing request: no role'']\<rparr>)"
    using f1 e1 m1 by (cases "errorHandler ?rf ''roleName'' ?h1 100 [] ?req ?w0") simp
  have b: "errorHandler ?rf ''roleName'' ?h2 100 [] ?req ?w0
    = ([Write ''my-role''], \<lparr>meters = [''handlerResponse-roleName.2xx'' \<mapsto> 1], events = []\<rparr>)"
    using f2 e2 m2 by (cases "errorHandler ?rf ''roleName'' ?h2 100 [] ?req ?w0") simp
  from a b show ?thesis by blast
qed

subsection \<open>Stopping and failing to start\<close>

text \<open>
  C8. With no server handle, \<open>Stop\<close> changes nothing: no log line and no shutdown.
  With a handle, it logs, calls \<open>Shutdown\<close> once under a child of the caller's context
  whose deadline is at most five seconds after the clock reading, and logs again; the
  handle stays. \<open>Stop\<close> has no error result, and a second \<open>Stop\<close> does the same again on
  the same handle.
\<close>

theorem Stop_spec:
  "(server s = None \<longrightarrow> Stop now ctx s \<sigma> = (s, \<sigma>))
   \<and> (\<forall>srv. server s = Some srv \<longrightarrow>
         Stop now ctx s \<sigma> =
           (s, \<sigma>\<lparr>events := events \<sigma> @
                 [Infoln ''starting server shutdown'',
                  Shutdown_call (Addr srv) (WithTimeout ctx (5 * Second) now),
                  Infoln ''gracefully shutdown server'']\<rparr>)
         \<and> Parent (WithTimeout ctx (5 * Second) now) = Some ctx
         \<and> (\<exists>d. Deadline (WithTimeout ctx (5 * Second) now) = Some d \<and> d \<le> now + 5000000000)
         \<and> Stop now' ctx' (fst (Stop now ctx s \<sigma>)) (snd (Stop now ctx s \<sigma>)) =
           (s, \<sigma>\<lparr>events := events \<sigma> @
                 [Infoln ''starting server shutdown'',
                  Shutdown_call (Addr srv) (WithTimeout ctx (5 * Second) now),
                  Infoln ''gracefully shutdown server'',
                  Infoln ''starting server shutdown'',
                  Shutdown_call (Addr srv) (WithTimeout ctx' (5 * Second) now'),
                  Infoln ''gracefully shutdown server'']\<rparr>))"
proof (intro conjI allI impI)
  assume "server s = None"
  then show "Stop now ctx s \<sigma> = (s, \<sigma>)" by (simp add: Stop_def)
next
  fix srv assume srv: "server s = Some srv"
  then show first: "Stop now ctx s \<sigma> =
           (s, \<sigma>\<lparr>events := events \<sigma> @
                 [Infoln ''starting server shutdown'',
                  Shutdown_call (Addr srv) (WithTimeout ctx (5 * Second) now),
                  Infoln ''gracefully shutdown server'']\<rparr>)"
    by (simp add: Stop_def Let_def)
  show "Parent (WithTimeout ctx (5 * Second) now) = Some ctx"
    by (rule Parent_WithTimeout)
  from Deadline_WithTimeout_le [of ctx "5 * Second" now]
  show "\<exists>d. Deadline (WithTimeout ctx (5 * Second) now) = Some d \<and> d \<le> now + 5000000000"
    by (simp add: Second_def)
  from srv show "Stop now' ctx' (fst (Stop now ctx s \<sigma>)) (snd (Stop now ctx s \<sigma>)) =
           (s, \<sigma>\<lparr>events := events \<sigma> @
                 [Infoln ''starting server shutdown'',
                  Shutdown_call (Addr srv) (WithTimeout ctx (5 * Second) now),
                  Infoln ''gracefully shutdown server'',
                  Infoln ''starting server shutdown'',
                  Shutdown_call (Addr srv) (WithTimeout ctx' (5 * Second) now'),
                  Infoln ''gracefully shutdown server'']\<rparr>)"
    by (simp add: Stop_def Let_def)
qed

theorem Stop_spec_witness:
  "server (NewWebServer (NewConfig 8181) () () :: (unit, unit, unit) Server) = None
   \<and> Stop 100 Background (NewWebServer (NewConfig 8181) () () :: (unit, unit, unit) Server)
         \<lparr>meters = Map.empty, events = []\<rparr>
       = (NewWebServer (NewConfig 8181) () (), \<lparr>meters = Map.empty, events = []\<rparr>)
   \<and> server \<lparr>cfg = NewConfig 8181, finder = (), credentials = (),
               server = Some \<lparr>Addr = '':8181'', Handler = ()\<rparr>\<rparr>
       = Some \<lparr>Addr = '':8181'', Handler = ()\<rparr>
   \<and> Stop 100 Background
         \<lparr>cfg = NewConfig 8181, finder = (), credentials = (),
          server = Some \<lparr>Addr = '':8181'', Handler = ()\<rparr>\<rparr>
         \<lparr>meters = Map.empty, events = []\<rparr>
       = (\<lparr>cfg = NewConfig 8181, finder = (), credentials = (),
           server = Some \<lparr>Addr = '':8181'', Handler = ()\<rparr>\<rparr>,
          \<lparr>meters = Map.empty,
           events = [Infoln ''starting server shutdown'',
                     Shutdown_call '':8181'' (timerCtx Background 5000000100),
                     Infoln ''gracefully shutdown server'']\<rparr>)"
proof -
  let ?s0 = "NewWebServer (NewConfig 8181) () () :: (unit, unit, unit) Server"
  let ?s1 = "\<lparr>cfg = NewConfig 8181, finder = (), credentials = (),
               server = Some \<lparr>Addr = '':8181'', Handler = ()\<rparr>\<rparr>"
  let ?w0 = "\<lparr>meters = Map.empty, events = []\<rparr>"
  have n: "server ?s0 = None" by (simp add: NewWebServer_def)
  have r: "server ?s1 = Some \<lparr>Addr = '':8181'', Handler = ()\<rparr>" by simp
  have c: "WithTimeout Background (5 * Second) 100 = timerCtx Background 5000000100"
    by (simp add: WithTimeout_def WithDeadline_def Second_def)
  from Stop_spec [of ?s0 100 Background ?w0] n
  have a: "Stop 100 Background ?s0 ?w0 = (?s0, ?w0)" by blast
  from Stop_spec [of ?s1 100 Background ?w0] r
  have "Stop 100 Background ?s1 ?w0 =
          (?s1, ?w0\<lparr>events := events ?w0 @
                 [Infoln ''starting server shutdown'',
                  Shutdown_call (Addr \<lparr>Addr = '':8181'', Handler = ()\<rparr>) (WithTimeout Background (5 * Second) 100),
                  Infoln ''gracefully shutdown server'']\<rparr>)"
    by blast
  then have b: "Stop 100 Background ?s1 ?w0 =
       (?s1, \<lparr>meters = Map.empty,
           events = [Infoln ''starting server shutdown'',
                     Shutdown_call '':8181'' (timerCtx Background 5000000100),
                     Infoln ''gracefully shutdown server'']\<rparr>)"
    by (simp add: c)
  from n a r b show ?thesis by blast
qed

text \<open>
  C10. When parsing the metadata endpoint fails, \<open>Serve\<close> returns that error and
  changes nothing: no server object is stored, nothing is logged and \<open>ListenAndServe\<close> is
  not called. A handle that was unset stays unset, and \<open>Stop\<close> after it still does
  nothing.
\<close>

theorem Serve_parse_error:
  assumes "Parse (MetadataEndpoint (cfg s)) = Inl err"
  shows "Serve Parse las s \<sigma> = (Some err, s, \<sigma>)
     \<and> (server s = None \<longrightarrow>
          server (fst (snd (Serve Parse las s \<sigma>))) = None
          \<and> Stop now ctx (fst (snd (Serve Parse las s \<sigma>))) (snd (snd (Serve Parse las s \<sigma>)))
              = (s, \<sigma>))"
  using assms by (simp add: Serve_def Stop_def Let_def)

theorem Serve_parse_error_witness:
  "(\<lambda>rawURL. if rawURL = '':'' then Inl ''missing protocol scheme'' else Inr rawURL)
      (MetadataEndpoint (cfg (NewWebServer ((NewConfig 8181)\<lparr>MetadataEndpoint := '':''\<rparr>) () ()
          :: (unit, unit, (unit, unit, string) Router logging) Server)))
     = (Inl ''missing protocol scheme'' :: error + string)
   \<and> Serve (\<lambda>rawURL. if rawURL = '':'' then Inl ''missing protocol scheme'' else Inr rawURL) Map.empty
        (NewWebServer ((NewConfig 8181)\<lparr>MetadataEndpoint := '':''\<rparr>) () ()
          :: (unit, unit, (unit, unit, string) Router logging) Server)
        \<lparr>meters = Map.empty, events = []\<rparr>
     = (Some ''missing protocol scheme'',
        NewWebServer ((NewConfig 8181)\<lparr>MetadataEndpoint := '':''\<rparr>) () (),
        \<lparr>meters = Map.empty, events = []\<rparr>)
   \<and> server (NewWebServer ((NewConfig 8181)\<lparr>MetadataEndpoint := '':''\<rparr>) () ()
          :: (unit, unit, (unit, unit, string) Router logging) Server) = None
   \<and> Stop 100 Background
        (fst (snd (Serve (\<lambda>rawURL. if rawURL = '':'' then Inl ''missing protocol scheme'' else Inr rawURL)
           Map.empty
           (NewWebServer ((NewConfig 8181)\<lparr>MetadataEndpoint := '':''\<rparr>) () ()
             :: (unit, unit, (unit, unit, string) Router logging) Server)
           \<lparr>meters = Map.empty, events = []\<rparr>)))
        (snd (snd (Serve (\<lambda>rawURL. if rawURL = '':'' then Inl ''missing protocol scheme'' else Inr rawURL)
           Map.empty
           (NewWebServer ((NewConfig 8181)\<lparr>MetadataEndpoint := '':''\<rparr>) () ()
             :: (unit, unit, (unit, unit, string) Router logging) Server)
           \<lparr>meters = Map.empty, events = []\<rparr>)))
     = (NewWebServer ((NewConfig 8181)\<lparr>MetadataEndpoint := '':''\<rparr>) () (),
        \<lparr>meters = Map.empty, events = []\<rparr>)"
proof -
  let ?Parse = "(\<lambda>rawURL. if rawURL = '':'' then Inl ''missing protocol scheme'' else Inr rawURL)
                  :: string \<Rightarrow> error + string"
  let ?s = "NewWebServer ((NewConfig 8181)\<lparr>MetadataEndpoint := '':''\<rparr>) () ()
              :: (unit, unit, (unit, unit, string) Router logging) Server"
  let ?w0 = "\<lparr>meters = Map.empty, events = []\<rparr>"
  have bad: "?Parse (MetadataEndpoint (cfg ?s)) = Inl ''missing protocol scheme''"
    by (simp add: NewWebServer_def NewConfig_def)
  have unset: "server ?s = None" by (simp add: NewWebServer_def)
  note t = Serve_parse_error [where Parse = ?Parse and s = ?s and err = "''missing protocol scheme''"
      and las = Map.empty and \<sigma> = ?w0 and now = 100 and ctx = Background]
  from t bad have a: "Serve ?Parse Map.empty ?s ?w0 = (Some ''missing protocol scheme'', ?s, ?w0)"
    by blast
  from t bad unset
  have b: "Stop 100 Background (fst (snd (Serve ?Parse Map.empty ?s ?w0)))
             (snd (snd (Serve ?Parse Map.empty ?s ?w0))) = (?s, ?w0)"
    by blast
  from bad a unset b show ?thesis by blast
qed

subsection \<open>Routing\<close>

lemma Match_None_iff: "Match router path = None \<longleftrightarrow> (\<forall>(tpl, h) \<in> set router. \<not> tpl_match tpl path)"
  by (induction router path rule: Match.induct) auto

lemma Match_append:
  "Match (r1 @ r2) path = (case Match r1 path of Some h \<Rightarrow> Some h | None \<Rightarrow> Match r2 path)"
  by (induction r1 path rule: Match.induct) auto

lemma Match_Some_route:
  "Match router path = Some h \<Longrightarrow> \<exists>tpl. (tpl, h) \<in> set router \<and> tpl_match tpl path"
  by (induction router path rule: Match.induct) (auto split: if_splits)

lemma Match_first:
  "tpl_match tpl path \<Longrightarrow> (\<forall>(t, h') \<in> set r1. \<not> tpl_match t path) \<Longrightarrow>
     Match (r1 @ (tpl, h) # r2) path = Some h"
  by (simp add: Match_append Match_None_iff [THEN iffD2])

lemma tpl_match_Var_end: "tpl_match [Var name re] v \<longleftrightarrow> matches_re re v"
proof
  assume "tpl_match [Var name re] v"
  then obtain n where "n \<le> length v" "matches_re re (take n v)" "drop n v = []"
    by (auto simp add: list_ex_iff)
  then show "matches_re re v" by simp
next
  assume "matches_re re v"
  then have "matches_re re (take (length v) v) \<and> drop (length v) v = []" by simp
  moreover have "length v \<in> set [0..<Suc (length v)]" by simp
  ultimately show "tpl_match [Var name re] v"
    unfolding tpl_match.simps list_ex_iff by blast
qed

lemma tpl_match_catch_all:
  "tpl_match [Lit ''/'', Var name dot_star] path
     \<longleftrightarrow> (\<exists>rest. path = CHR ''/'' # rest \<and> CHR 0x0A \<notin> set rest)"
proof (cases path)
  case Nil
  then show ?thesis by simp
next
  case (Cons c rest)
  have "tpl_match [Lit ''/'', Var name dot_star] (c # rest)
          \<longleftrightarrow> c = CHR ''/'' \<and> tpl_match [Var name dot_star] rest"
    by simp
  also have "\<dots> \<longleftrightarrow> c = CHR ''/'' \<and> CHR 0x0A \<notin> set rest"
    unfolding tpl_match_Var_end by (auto simp add: list_all_iff)
  finally show ?thesis using Cons by auto
qed

lemma tpl_match_Var_iff:
  "tpl_match (Var name re # ps) path \<longleftrightarrow>
     (\<exists>v rest. path = v @ rest \<and> matches_re re v \<and> tpl_match ps rest)"
proof
  assume "tpl_match (Var name re # ps) path"
  then obtain n where "matches_re re (take n path)" "tpl_match ps (drop n path)"
    unfolding tpl_match.simps list_ex_iff by blast
  moreover have "path = take n path @ drop n path" by simp
  ultimately show "\<exists>v rest. path = v @ rest \<and> matches_re re v \<and> tpl_match ps rest" by blast
next
  assume "\<exists>v rest. path = v @ rest \<and> matches_re re v \<and> tpl_match ps rest"
  then obtain v rest where p: "path = v @ rest" and m: "matches_re re v" "tpl_match ps rest"
    by blast
  have "length v \<in> set [0..<Suc (length path)]" by (simp add: p)
  moreover have "matches_re re (take (length v) path) \<and> tpl_match ps (drop (length v) path)"
    using m by (simp add: p)
  ultimately show "tpl_match (Var name re # ps) path"
    unfolding tpl_match.simps list_ex_iff by blast
qed

lemma tpl_match_default_slash:
  "tpl_match (Var name defaultPattern # Lit (CHR ''/'' # l) # ps) path \<longleftrightarrow>
     takeWhile (\<lambda>c. c \<noteq> CHR ''/'') path \<noteq> []
     \<and> tpl_match (Lit (CHR ''/'' # l) # ps) (dropWhile (\<lambda>c. c \<noteq> CHR ''/'') path)"
proof
  assume "tpl_match (Var name defaultPattern # Lit (CHR ''/'' # l) # ps) path"
  then obtain v rest where p: "path = v @ rest" and v: "v \<noteq> []" "CHR ''/'' \<notin> set v"
    and r: "tpl_match (Lit (CHR ''/'' # l) # ps) rest"
    unfolding tpl_match_Var_iff by (auto simp add: list_all_iff)
  from r obtain rest' where rest: "rest = CHR ''/'' # rest'"
    by (cases rest) auto
  from v(2) have all: "\<forall>c \<in> set v. c \<noteq> CHR ''/''" by auto
  have "takeWhile (\<lambda>c. c \<noteq> CHR ''/'') path = v"
    using all by (simp add: p rest takeWhile_append2)
  moreover have "dropWhile (\<lambda>c. c \<noteq> CHR ''/'') path = rest"
    using all by (simp add: p rest dropWhile_append2)
  ultimately show "takeWhile (\<lambda>c. c \<noteq> CHR ''/'') path \<noteq> []
     \<and> tpl_match (Lit (CHR ''/'' # l) # ps) (dropWhile (\<lambda>c. c \<noteq> CHR ''/'') path)"
    using v(1) r by simp
next
  assume a: "takeWhile (\<lambda>c. c \<noteq> CHR ''/'') path \<noteq> []
     \<and> tpl_match (Lit (CHR ''/'' # l) # ps) (dropWhile (\<lambda>c. c \<noteq> CHR ''/'') path)"
  have "path = takeWhile (\<lambda>c. c \<noteq> CHR ''/'') path @ dropWhile (\<lambda>c. c \<noteq> CHR ''/'') path"
    by simp
  moreover have "matches_re defaultPattern (takeWhile (\<lambda>c. c \<noteq> CHR ''/'') path)"
    using a by (auto simp add: list_all_iff dest: set_takeWhileD)
  ultimately show "tpl_match (Var name defaultPattern # Lit (CHR ''/'' # l) # ps) path"
    unfolding tpl_match_Var_iff using a by blast
qed

lemmas tpl_eval = tpl_match.simps(1,2) tpl_match_default_slash tpl_match_Var_end Match.simps

lemma Serve_installs_router:
  assumes "Parse (MetadataEndpoint (cfg s)) = Inr u"
  shows "server (fst (snd (Serve Parse las s \<sigma>))) =
           Some \<lparr> Addr = listenAddress s,
                  Handler = LoggingHandler
                    [([Lit ''/metrics''], ExpHandler),
                     ([Lit ''/ping''], pong),
                     ([Lit ''/health''], Guarded ''health'' (healthHandler (MetadataEndpoint (cfg s)))),
                     ([Lit ''/'', Var ''version'' defaultPattern, Lit ''/meta-data/iam/security-credentials/''],
                      Guarded ''roleName'' (roleHandler (finder s))),
                     ([Lit ''/'', Var ''version'' defaultPattern, Lit ''/meta-data/iam/security-credentials/'',
                       Var ''role'' dot_star],
                      Guarded ''credentials'' (credentialsHandler (finder s) (credentials s))),
                     ([Lit ''/'', Var ''path'' dot_star], ReverseProxy u)] \<rparr>"
  using assms by (simp add: Serve_def Let_def Handle_def NewRouter_def)

lemma Clean_rooted:
  "path \<noteq> [] \<Longrightarrow> hd path = CHR ''/'' \<Longrightarrow> \<exists>rest. Clean path = CHR ''/'' # rest"
  by (simp add: Clean_def Let_def)

lemma cleanPath_rooted: "\<exists>rest. cleanPath p = CHR ''/'' # rest"
proof (cases "p = []")
  case True
  then show ?thesis by (simp add: cleanPath_def)
next
  case False
  define q where "q = (if hd p \<noteq> CHR ''/'' then CHR ''/'' # p else p)"
  have "q \<noteq> []" "hd q = CHR ''/''" using False by (auto simp add: q_def)
  then obtain rest where "Clean q = CHR ''/'' # rest" using Clean_rooted by blast
  then show ?thesis using False
    by (auto simp add: cleanPath_def Let_def q_def [symmetric])
qed

lemma canonical_rooted: "cleanPath path = path \<Longrightarrow> \<exists>rest. path = CHR ''/'' # rest"
  using cleanPath_rooted [of path] by simp

lemma ServeHTTP_redirect:
  "cleanPath path \<noteq> path \<Longrightarrow> ServeHTTP router path = MovedPermanently (cleanPath path)"
  by (simp add: ServeHTTP_def Let_def)

lemma ServeHTTP_canonical:
  "cleanPath path = path \<Longrightarrow>
     ServeHTTP router path = (case Match router path of Some h \<Rightarrow> Serves h | None \<Rightarrow> NotFound)"
  by (simp add: ServeHTTP_def Let_def)

lemma ServeHTTP_Serves_iff:
  "ServeHTTP router path = Serves h \<longleftrightarrow> cleanPath path = path \<and> Match router path = Some h"
  by (auto simp add: ServeHTTP_def Let_def split: option.splits)

lemma ServeHTTP_NotFound_iff:
  "ServeHTTP router path = NotFound \<longleftrightarrow> cleanPath path = path \<and> Match router path = None"
  by (auto simp add: ServeHTTP_def Let_def split: option.splits)

lemma Match_catch_all_last:
  assumes "ReverseProxy u \<notin> snd ` set specific"
  shows "tpl_match c path \<Longrightarrow> Match (specific @ [(c, ReverseProxy u)]) path \<noteq> None"
    and "(tpl, h) \<in> set specific \<Longrightarrow> tpl_match tpl path \<Longrightarrow>
           Match (specific @ [(c, ReverseProxy u)]) path \<noteq> Some (ReverseProxy u)
           \<and> Match (specific @ [(c, ReverseProxy u)]) path \<in> Some ` snd ` set specific"
    and "Match (specific @ [(c, ReverseProxy u)]) path = Some (ReverseProxy u) \<longleftrightarrow>
           tpl_match c path \<and> (\<forall>(tpl, h) \<in> set specific. \<not> tpl_match tpl path)"
proof -
  show "tpl_match c path \<Longrightarrow> Match (specific @ [(c, ReverseProxy u)]) path \<noteq> None"
    by (auto simp add: Match_None_iff)
  have sp: "h' \<in> snd ` set specific \<and> h' \<noteq> ReverseProxy u" if "Match specific path = Some h'" for h'
  proof -
    from Match_Some_route [OF that] have "h' \<in> snd ` set specific" by force
    with assms show ?thesis by blast
  qed
  show "Match (specific @ [(c, ReverseProxy u)]) path \<noteq> Some (ReverseProxy u)
           \<and> Match (specific @ [(c, ReverseProxy u)]) path \<in> Some ` snd ` set specific"
    if "(tpl, h) \<in> set specific" "tpl_match tpl path"
  proof -
    from that have "Match specific path \<noteq> None" by (auto simp add: Match_None_iff)
    then obtain h' where h': "Match specific path = Some h'" by auto
    with sp [OF h'] show ?thesis by (simp add: Match_append)
  qed
  show "Match (specific @ [(c, ReverseProxy u)]) path = Some (ReverseProxy u) \<longleftrightarrow>
           tpl_match c path \<and> (\<forall>(tpl, h) \<in> set specific. \<not> tpl_match tpl path)"
  proof (cases "Match specific path")
    case None
    then show ?thesis by (simp add: Match_append Match_None_iff [symmetric])
  next
    case (Some h')
    from Some have "\<not> (\<forall>(tpl, h) \<in> set specific. \<not> tpl_match tpl path)"
      by (simp add: Match_None_iff [symmetric])
    with sp [OF Some] Some show ?thesis by (simp add: Match_append)
  qed
qed

text \<open>
  C1, as amended. When the endpoint parses, \<open>Serve\<close> installs a router of six routes with
  the catch-all registered last. A path that is not in canonical form is redirected to its
  canonical form and no handler is selected; a path in canonical form begins with a slash.
  The catch-all matches exactly the paths that begin with a slash and have no newline
  after it, so every path in canonical form without a newline selects exactly one handler.
  The handler selected for a path in canonical form is that of the first route in
  registration order whose template matches, so a path that matches one of the five
  specific templates is handled by one of their handlers and never by the reverse proxy;
  the reverse proxy handles exactly the canonical paths that only the catch-all matches,
  and a canonical path that no template matches gets the not-found handler.
\<close>

theorem Serve_routing:
  fixes s :: "('f, 'c, ('f, 'c, 'u) Router logging) Server"
  assumes "Parse (MetadataEndpoint (cfg s)) = Inr u"
  shows "\<exists>router.
       server (fst (snd (Serve Parse las s \<sigma>)))
         = Some \<lparr> Addr = listenAddress s, Handler = LoggingHandler router \<rparr>
     \<and> router =
         [([Lit ''/metrics''], ExpHandler),
          ([Lit ''/ping''], pong),
          ([Lit ''/health''], Guarded ''health'' (healthHandler (MetadataEndpoint (cfg s)))),
          ([Lit ''/'', Var ''version'' defaultPattern, Lit ''/meta-data/iam/security-credentials/''],
           Guarded ''roleName'' (roleHandler (finder s))),
          ([Lit ''/'', Var ''version'' defaultPattern, Lit ''/meta-data/iam/security-credentials/'',
            Var ''role'' dot_star],
           Guarded ''credentials'' (credentialsHandler (finder s) (credentials s))),
          ([Lit ''/'', Var ''path'' dot_star], ReverseProxy u)]
     \<and> (\<forall>path.
          (cleanPath path \<noteq> path \<longrightarrow> ServeHTTP router path = MovedPermanently (cleanPath path))
        \<and> (cleanPath path = path \<longrightarrow> (\<exists>rest. path = CHR ''/'' # rest))
        \<and> (tpl_match (fst (last router)) path
             \<longleftrightarrow> (\<exists>rest. path = CHR ''/'' # rest \<and> CHR 0x0A \<notin> set rest))
        \<and> (cleanPath path = path \<and> CHR 0x0A \<notin> set path
             \<longrightarrow> (\<exists>!h. ServeHTTP router path = Serves h))
        \<and> (\<forall>r1 tpl h r2.
              cleanPath path = path \<and> router = r1 @ (tpl, h) # r2 \<and> tpl_match tpl path
              \<and> (\<forall>(t, h') \<in> set r1. \<not> tpl_match t path)
              \<longrightarrow> ServeHTTP router path = Serves h)
        \<and> (\<forall>tpl h. (tpl, h) \<in> set (butlast router) \<and> tpl_match tpl path \<longrightarrow>
              ServeHTTP router path \<noteq> Serves (ReverseProxy u)
              \<and> (cleanPath path = path
                   \<longrightarrow> ServeHTTP router path \<in> Serves ` snd ` set (butlast router)))
        \<and> (ServeHTTP router path = Serves (ReverseProxy u) \<longleftrightarrow>
              cleanPath path = path \<and> tpl_match (fst (last router)) path
              \<and> (\<forall>(tpl, h) \<in> set (butlast router). \<not> tpl_match tpl path))
        \<and> (ServeHTTP router path = NotFound \<longleftrightarrow>
              cleanPath path = path \<and> (\<forall>(tpl, h) \<in> set router. \<not> tpl_match tpl path))
        \<and> (\<forall>h. ServeHTTP router path = Serves h \<longrightarrow>
              cleanPath path = path \<and> (\<exists>tpl. (tpl, h) \<in> set router \<and> tpl_match tpl path)))"
proof -
  define specific :: "('f, 'c, 'u) Router" where "specific =
         [([Lit ''/metrics''], ExpHandler),
          ([Lit ''/ping''], pong),
          ([Lit ''/health''], Guarded ''health'' (healthHandler (MetadataEndpoint (cfg s)))),
          ([Lit ''/'', Var ''version'' defaultPattern, Lit ''/meta-data/iam/security-credentials/''],
           Guarded ''roleName'' (roleHandler (finder s))),
          ([Lit ''/'', Var ''version'' defaultPattern, Lit ''/meta-data/iam/security-credentials/'',
            Var ''role'' dot_star],
           Guarded ''credentials'' (credentialsHandler (finder s) (credentials s)))]"
  define catch_all :: "tpl_piece list" where "catch_all = [Lit ''/'', Var ''path'' dot_star]"
  define router where "router = specific @ [(catch_all, ReverseProxy u)]"
  have installed: "server (fst (snd (Serve Parse las s \<sigma>)))
         = Some \<lparr> Addr = listenAddress s, Handler = LoggingHandler router \<rparr>"
    using assms Serve_installs_router [where Parse = Parse and s = s and u = u and las = las and \<sigma> = \<sigma>]
    by (simp add: router_def specific_def catch_all_def)
  have bl: "butlast router = specific" and la: "fst (last router) = catch_all"
    by (simp_all add: router_def)
  have no_proxy: "ReverseProxy u \<notin> snd ` set specific"
    by (simp add: specific_def)
  note last_facts = Match_catch_all_last [OF no_proxy, where c = catch_all, folded router_def]
  have catch: "tpl_match catch_all path
             \<longleftrightarrow> (\<exists>rest. path = CHR ''/'' # rest \<and> CHR 0x0A \<notin> set rest)" for path
    unfolding catch_all_def by (rule tpl_match_catch_all)
  have paths:
      "(cleanPath path \<noteq> path \<longrightarrow> ServeHTTP router path = MovedPermanently (cleanPath path))
        \<and> (cleanPath path = path \<longrightarrow> (\<exists>rest. path = CHR ''/'' # rest))
        \<and> (tpl_match (fst (last router)) path
             \<longleftrightarrow> (\<exists>rest. path = CHR ''/'' # rest \<and> CHR 0x0A \<notin> set rest))
        \<and> (cleanPath path = path \<and> CHR 0x0A \<notin> set path
             \<longrightarrow> (\<exists>!h. ServeHTTP router path = Serves h))
        \<and> (\<forall>r1 tpl h r2.
              cleanPath path = path \<and> router = r1 @ (tpl, h) # r2 \<and> tpl_match tpl path
              \<and> (\<forall>(t, h') \<in> set r1. \<not> tpl_match t path)
              \<longrightarrow> ServeHTTP router path = Serves h)
        \<and> (\<forall>tpl h. (tpl, h) \<in> set (butlast router) \<and> tpl_match tpl path \<longrightarrow>
              ServeHTTP router path \<noteq> Serves (ReverseProxy u)
              \<and> (cleanPath path = path
                   \<longrightarrow> ServeHTTP router path \<in> Serves ` snd ` set (butlast router)))
        \<and> (ServeHTTP router path = Serves (ReverseProxy u) \<longleftrightarrow>
              cleanPath path = path \<and> tpl_match (fst (last router)) path
              \<and> (\<forall>(tpl, h) \<in> set (butlast router). \<not> tpl_match tpl path))
        \<and> (ServeHTTP router path = NotFound \<longleftrightarrow>
              cleanPath path = path \<and> (\<forall>(tpl, h) \<in> set router. \<not> tpl_match tpl path))
        \<and> (\<forall>h. ServeHTTP router path = Serves h \<longrightarrow>
              cleanPath path = path \<and> (\<exists>tpl. (tpl, h) \<in> set router \<and> tpl_match tpl path))"
    for path
  proof (intro conjI)
    show "cleanPath path \<noteq> path \<longrightarrow> ServeHTTP router path = MovedPermanently (cleanPath path)"
      by (simp add: ServeHTTP_redirect)
    show "cleanPath path = path \<longrightarrow> (\<exists>rest. path = CHR ''/'' # rest)"
      using canonical_rooted by blast
    show "tpl_match (fst (last router)) path
             \<longleftrightarrow> (\<exists>rest. path = CHR ''/'' # rest \<and> CHR 0x0A \<notin> set rest)"
      unfolding la by (rule catch)
    show "cleanPath path = path \<and> CHR 0x0A \<notin> set path
             \<longrightarrow> (\<exists>!h. ServeHTTP router path = Serves h)"
    proof
      assume a: "cleanPath path = path \<and> CHR 0x0A \<notin> set path"
      then obtain rest where "path = CHR ''/'' # rest" using canonical_rooted by blast
      with a have "tpl_match catch_all path" by (auto simp add: catch)
      then have "Match router path \<noteq> None" by (rule last_facts(1))
      with a show "\<exists>!h. ServeHTTP router path = Serves h"
        by (auto simp add: ServeHTTP_Serves_iff)
    qed
    show "\<forall>r1 tpl h r2.
              cleanPath path = path \<and> router = r1 @ (tpl, h) # r2 \<and> tpl_match tpl path
              \<and> (\<forall>(t, h') \<in> set r1. \<not> tpl_match t path)
              \<longrightarrow> ServeHTTP router path = Serves h"
      using Match_first by (simp add: ServeHTTP_Serves_iff) blast
    show "\<forall>tpl h. (tpl, h) \<in> set (butlast router) \<and> tpl_match tpl path \<longrightarrow>
              ServeHTTP router path \<noteq> Serves (ReverseProxy u)
              \<and> (cleanPath path = path
                   \<longrightarrow> ServeHTTP router path \<in> Serves ` snd ` set (butlast router))"
    proof (intro allI impI)
      fix tpl h
      assume "(tpl, h) \<in> set (butlast router) \<and> tpl_match tpl path"
      then have "(tpl, h) \<in> set specific" "tpl_match tpl path" by (simp_all add: bl)
      from last_facts(2) [OF this]
      have m: "Match router path \<noteq> Some (ReverseProxy u)"
        and "Match router path \<in> Some ` snd ` set specific" by blast+
      then obtain h' where h': "Match router path = Some h'" "h' \<in> snd ` set specific" by blast
      have "ServeHTTP router path \<in> Serves ` snd ` set specific" if "cleanPath path = path"
        using that h' by (simp add: ServeHTTP_canonical)
      with m show "ServeHTTP router path \<noteq> Serves (ReverseProxy u)
              \<and> (cleanPath path = path
                   \<longrightarrow> ServeHTTP router path \<in> Serves ` snd ` set (butlast router))"
        by (simp add: ServeHTTP_Serves_iff bl)
    qed
    show "ServeHTTP router path = Serves (ReverseProxy u) \<longleftrightarrow>
              cleanPath path = path \<and> tpl_match (fst (last router)) path
              \<and> (\<forall>(tpl, h) \<in> set (butlast router). \<not> tpl_match tpl path)"
      unfolding ServeHTTP_Serves_iff last_facts(3) la bl ..
    show "ServeHTTP router path = NotFound \<longleftrightarrow>
              cleanPath path = path \<and> (\<forall>(tpl, h) \<in> set router. \<not> tpl_match tpl path)"
      unfolding ServeHTTP_NotFound_iff Match_None_iff ..
    show "\<forall>h. ServeHTTP router path = Serves h \<longrightarrow>
              cleanPath path = path \<and> (\<exists>tpl. (tpl, h) \<in> set router \<and> tpl_match tpl path)"
      using Match_Some_route by (simp add: ServeHTTP_Serves_iff) blast
  qed
  from installed paths show ?thesis
    unfolding router_def specific_def catch_all_def append.simps by blast
qed

theorem Serve_routing_witness:
  "(Inr :: string \<Rightarrow> error + string)
      (MetadataEndpoint (cfg (NewWebServer (NewConfig 8181) () ()
          :: (unit, unit, (unit, unit, string) Router logging) Server)))
     = Inr ''http://169.254.169.254''
   \<and> (\<exists>router.
        server (fst (snd (Serve Inr Map.empty
          (NewWebServer (NewConfig 8181) () () :: (unit, unit, (unit, unit, string) Router logging) Server)
          \<lparr>meters = Map.empty, events = []\<rparr>)))
          = Some \<lparr> Addr = '':8181'', Handler = LoggingHandler router \<rparr>
      \<and> ServeHTTP router ''/metrics'' = Serves ExpHandler
      \<and> ServeHTTP router ''/ping'' = Serves pong
      \<and> ServeHTTP router ''/health'' = Serves (Guarded ''health'' (healthHandler ''http://169.254.169.254''))
      \<and> ServeHTTP router ''/latest/meta-data/iam/security-credentials/''
           = Serves (Guarded ''roleName'' (roleHandler ()))
      \<and> ServeHTTP router ''/latest/meta-data/iam/security-credentials/my-role''
           = Serves (Guarded ''credentials'' (credentialsHandler () ()))
      \<and> ServeHTTP router ''/latest/meta-data/hostname'' = Serves (ReverseProxy ''http://169.254.169.254'')
      \<and> ServeHTTP router ''/x/../ping'' = MovedPermanently ''/ping''
      \<and> ServeHTTP router ''ping'' = MovedPermanently ''/ping'')"
proof -
  let ?s = "NewWebServer (NewConfig 8181) () () :: (unit, unit, (unit, unit, string) Router logging) Server"
  let ?w0 = "\<lparr>meters = Map.empty, events = []\<rparr>"
  have ok: "(Inr :: string \<Rightarrow> error + string) (MetadataEndpoint (cfg ?s)) = Inr ''http://169.254.169.254''"
    by (simp add: NewWebServer_def NewConfig_def)
  have addr: "listenAddress ?s = '':8181''"
    by (simp add: listenAddress_def NewWebServer_def NewConfig_def dec_int_def dec_nat.simps digit_def)
  have fields: "MetadataEndpoint (cfg ?s) = ''http://169.254.169.254''" "finder ?s = ()" "credentials ?s = ()"
    by (simp_all add: NewWebServer_def NewConfig_def)
  from Serve_routing [where Parse = Inr and s = ?s and u = "''http://169.254.169.254''"
      and las = Map.empty and \<sigma> = ?w0, OF ok]
  obtain router where
    installed: "server (fst (snd (Serve Inr Map.empty ?s ?w0)))
         = Some \<lparr> Addr = listenAddress ?s, Handler = LoggingHandler router \<rparr>"
    and router: "router =
         [([Lit ''/metrics''], ExpHandler),
          ([Lit ''/ping''], pong),
          ([Lit ''/health''], Guarded ''health'' (healthHandler (MetadataEndpoint (cfg ?s)))),
          ([Lit ''/'', Var ''version'' defaultPattern, Lit ''/meta-data/iam/security-credentials/''],
           Guarded ''roleName'' (roleHandler (finder ?s))),
          ([Lit ''/'', Var ''version'' defaultPattern, Lit ''/meta-data/iam/security-credentials/'',
            Var ''role'' dot_star],
           Guarded ''credentials'' (credentialsHandler (finder ?s) (credentials ?s))),
          ([Lit ''/'', Var ''path'' dot_star], ReverseProxy ''http://169.254.169.254'')]"
    by (elim exE conjE)
  have c1: "cleanPath ''/metrics'' = ''/metrics''" by code_simp
  have c2: "cleanPath ''/ping'' = ''/ping''" by code_simp
  have c3: "cleanPath ''/health'' = ''/health''" by code_simp
  have c4: "cleanPath ''/latest/meta-data/iam/security-credentials/''
              = ''/latest/meta-data/iam/security-credentials/''" by code_simp
  have c5: "cleanPath ''/latest/meta-data/iam/security-credentials/my-role''
              = ''/latest/meta-data/iam/security-credentials/my-role''" by code_simp
  have c6: "cleanPath ''/latest/meta-data/hostname'' = ''/latest/meta-data/hostname''" by code_simp
  have c7: "cleanPath ''/x/../ping'' = ''/ping''" by code_simp
  have c8: "cleanPath ''ping'' = ''/ping''" by code_simp
  have m1: "ServeHTTP router ''/metrics'' = Serves ExpHandler"
    unfolding router ServeHTTP_canonical [OF c1] by (simp del: tpl_match.simps add: tpl_eval)
  have m2: "ServeHTTP router ''/ping'' = Serves pong"
    unfolding router ServeHTTP_canonical [OF c2] by (simp del: tpl_match.simps add: tpl_eval)
  have m3: "ServeHTTP router ''/health'' = Serves (Guarded ''health'' (healthHandler ''http://169.254.169.254''))"
    unfolding router fields ServeHTTP_canonical [OF c3] by (simp del: tpl_match.simps add: tpl_eval)
  have m4: "ServeHTTP router ''/latest/meta-data/iam/security-credentials/''
           = Serves (Guarded ''roleName'' (roleHandler ()))"
    unfolding router fields ServeHTTP_canonical [OF c4] by (simp del: tpl_match.simps add: tpl_eval)
  have m5: "ServeHTTP router ''/latest/meta-data/iam/security-credentials/my-role''
           = Serves (Guarded ''credentials'' (credentialsHandler () ()))"
    unfolding router fields ServeHTTP_canonical [OF c5] by (simp del: tpl_match.simps add: tpl_eval)
  have m6: "ServeHTTP router ''/latest/meta-data/hostname'' = Serves (ReverseProxy ''http://169.254.169.254'')"
    unfolding router fields ServeHTTP_canonical [OF c6] by (simp del: tpl_match.simps add: tpl_eval)
  have m7: "ServeHTTP router ''/x/../ping'' = MovedPermanently ''/ping''"
    by (simp add: ServeHTTP_def Let_def c7)
  have m8: "ServeHTTP router ''ping'' = MovedPermanently ''/ping''"
    by (simp add: ServeHTTP_def Let_def c8)
  from ok installed addr m1 m2 m3 m4 m5 m6 m7 m8 show ?thesis by auto
qed

text \<open>
  C1, as stated, fails: the router that \<open>Serve\<close> installs selects none of the registered
  handlers for the path made of a slash and a newline (no route matches: not found), nor
  for the path \<open>//ping\<close> (not in canonical form: redirected to \<open>/ping\<close>).
\<close>

theorem Serve_routing_counterexample:
  "server (fst (snd (Serve Inr Map.empty
       (NewWebServer (NewConfig 8181) () () :: (unit, unit, (unit, unit, string) Router logging) Server)
       \<lparr>meters = Map.empty, events = []\<rparr>)))
     = Some \<lparr> Addr = '':8181'',
              Handler = LoggingHandler
                [([Lit ''/metrics''], ExpHandler),
                 ([Lit ''/ping''], pong),
                 ([Lit ''/health''], Guarded ''health'' (healthHandler ''http://169.254.169.254'')),
                 ([Lit ''/'', Var ''version'' defaultPattern, Lit ''/meta-data/iam/security-credentials/''],
                  Guarded ''roleName'' (roleHandler ())),
                 ([Lit ''/'', Var ''version'' defaultPattern, Lit ''/meta-data/iam/security-credentials/'',
                   Var ''role'' dot_star],
                  Guarded ''credentials'' (credentialsHandler () ())),
                 ([Lit ''/'', Var ''path'' dot_star], ReverseProxy ''http://169.254.169.254'')] \<rparr>
   \<and> ServeHTTP
        [([Lit ''/metrics''], ExpHandler),
         ([Lit ''/ping''], pong),
         ([Lit ''/health''], Guarded ''health'' (healthHandler ''http://169.254.169.254'')),
         ([Lit ''/'', Var ''version'' defaultPattern, Lit ''/meta-data/iam/security-credentials/''],
          Guarded ''roleName'' (roleHandler ())),
         ([Lit ''/'', Var ''version'' defaultPattern, Lit ''/meta-data/iam/security-credentials/'',
           Var ''role'' dot_star],
          Guarded ''credentials'' (credentialsHandler () ())),
         ([Lit ''/'', Var ''path'' dot_star], ReverseProxy ''http://169.254.169.254'')]
        [CHR ''/'', CHR 0x0A]
     = NotFound
   \<and> ServeHTTP
        [([Lit ''/metrics''], ExpHandler),
         ([Lit ''/ping''], pong),
         ([Lit ''/health''], Guarded ''health'' (healthHandler ''http://169.254.169.254'')),
         ([Lit ''/'', Var ''version'' defaultPattern, Lit ''/meta-data/iam/security-credentials/''],
          Guarded ''roleName'' (roleHandler ())),
         ([Lit ''/'', Var ''version'' defaultPattern, Lit ''/meta-data/iam/security-credentials/'',
           Var ''role'' dot_star],
          Guarded ''credentials'' (credentialsHandler () ())),
         ([Lit ''/'', Var ''path'' dot_star], ReverseProxy ''http://169.254.169.254'')]
        ''//ping''
     = MovedPermanently ''/ping''"
proof -
  have addr: "dec_int 8181 = ''8181''"
    by (simp add: dec_int_def dec_nat.simps digit_def)
  have c1: "cleanPath [CHR ''/'', CHR 0x0A] = [CHR ''/'', CHR 0x0A]" by code_simp
  have c2: "cleanPath ''//ping'' = ''/ping''" by code_simp
  have a: "ServeHTTP
        [([Lit ''/metrics''], ExpHandler),
         ([Lit ''/ping''], pong),
         ([Lit ''/health''], Guarded ''health'' (healthHandler ''http://169.254.169.254'')),
         ([Lit ''/'', Var ''version'' defaultPattern, Lit ''/meta-data/iam/security-credentials/''],
          Guarded ''roleName'' (roleHandler ())),
         ([Lit ''/'', Var ''version'' defaultPattern, Lit ''/meta-data/iam/security-credentials/'',
           Var ''role'' dot_star],
          Guarded ''credentials'' (credentialsHandler () ())),
         ([Lit ''/'', Var ''path'' dot_star], ReverseProxy ''http://169.254.169.254'')]
        [CHR ''/'', CHR 0x0A]
     = NotFound"
    unfolding ServeHTTP_canonical [OF c1] by (simp del: tpl_match.simps add: tpl_eval)
  have b: "ServeHTTP
        [([Lit ''/metrics''], ExpHandler),
         ([Lit ''/ping''], pong),
         ([Lit ''/health''], Guarded ''health'' (healthHandler ''http://169.254.169.254'')),
         ([Lit ''/'', Var ''version'' defaultPattern, Lit ''/meta-data/iam/security-credentials/''],
          Guarded ''roleName'' (roleHandler ())),
         ([Lit ''/'', Var ''version'' defaultPattern, Lit ''/meta-data/iam/security-credentials/'',
           Var ''role'' dot_star],
          Guarded ''credentials'' (credentialsHandler () ())),
         ([Lit ''/'', Var ''path'' dot_star], ReverseProxy ''http://169.254.169.254'')]
        ''//ping''
     = MovedPermanently ''/ping''"
    by (simp add: ServeHTTP_def Let_def c2)
  have c: "server (fst (snd (Serve Inr Map.empty
       (NewWebServer (NewConfig 8181) () () :: (unit, unit, (unit, unit, string) Router logging) Server)
       \<lparr>meters = Map.empty, events = []\<rparr>)))
     = Some \<lparr> Addr = '':8181'',
              Handler = LoggingHandler
                [([Lit ''/metrics''], ExpHandler),
                 ([Lit ''/ping''], pong),
                 ([Lit ''/health''], Guarded ''health'' (healthHandler ''http://169.254.169.254'')),
                 ([Lit ''/'', Var ''version'' defaultPattern, Lit ''/meta-data/iam/security-credentials/''],
                  Guarded ''roleName'' (roleHandler ())),
                 ([Lit ''/'', Var ''version'' defaultPattern, Lit ''/meta-data/iam/security-credentials/'',
                   Var ''role'' dot_star],
                  Guarded ''credentials'' (credentialsHandler () ())),
                 ([Lit ''/'', Var ''path'' dot_star], ReverseProxy ''http://169.254.169.254'')] \<rparr>"
    by (simp add: Serve_def Let_def Handle_def NewRouter_def NewWebServer_def NewConfig_def
          listenAddress_def addr)
  from a b c show ?thesis by (intro conjI)
qed

subsection \<open>Configuration defaults\<close>

text \<open>
  C9. \<open>NewConfig port\<close> has \<open>AllowIPQuery\<close> false, the metadata endpoint
  \<open>http://169.254.169.254\<close>, a \<open>MaxElapsedTime\<close> of ten seconds (\<open>10^10\<close> nanoseconds) and
  the given listen port: the identity override is off by default.
\<close>

theorem NewConfig_defaults:
  "AllowIPQuery (NewConfig port) = False
   \<and> MetadataEndpoint (NewConfig port) = ''http://169.254.169.254''
   \<and> MaxElapsedTime (NewConfig port) = 10 * Second
   \<and> MaxElapsedTime (NewConfig port) = 10000000000
   \<and> ListenPort (NewConfig port) = port"
  by (simp add: NewConfig_def Second_def)

end
